theory Spec2Isabelle
  imports Complex_Main
begin

section \<open>Errors\<close>

text \<open>
  The exceptions of the Python source, as values. Each carries the message of the
  \<^verbatim>\<open>raise\<close> statement; \<open>AttributeError\<close> is what reading an attribute that was
  never assigned raises.
\<close>

datatype error = ValueError string | TypeError string | AttributeError string

text \<open>
  A method that assigns attributes of \<open>self\<close> and may raise: \<open>Inr s\<close> is a normal return
  with the object in state \<open>s\<close>, \<open>Inl (e, s)\<close> is exception \<open>e\<close> leaving the object in
  state \<open>s\<close>.
\<close>

type_synonym 's effect = "(error \<times> 's) + 's"

text \<open>The state of the object when the method is left, by return or by exception.\<close>

definition effect_state :: "'s effect \<Rightarrow> 's" where
  "effect_state r = (case r of Inl (e, s) \<Rightarrow> s | Inr s \<Rightarrow> s)"

section \<open>The sketch engine\<close>

text \<open>
  Modelled from the spec: the class \<open>MinHash\<close>, imported from \<^verbatim>\<open>.signature\<close>, is not
  part of the sources at hand. A sketch is tagged with its kind (\<open>num\<close> is the sample count
  of a fixed-size sketch, \<open>scaled\<close> the subsampling rate of a fixed-rate one; the attribute
  of the other kind reads 0), its k-mer size and molecule type, the abundance mode, and the
  mapping from hash to multiplicity.
\<close>

record MinHash =
  num :: nat
  scaled :: nat
  mh_ksize :: nat
  mh_moltype :: string
  track_abundance :: bool
  hashes :: "(nat \<times> int) list"

text \<open>
  Modelled from the spec: \<open>flatten\<close> is a structural copy with the abundance stripped and the
  abundance mode off.
\<close>

definition flatten :: "MinHash \<Rightarrow> MinHash" where
  "flatten mh = mh\<lparr>track_abundance := False, hashes := map (\<lambda>(h, a). (h, 1)) (hashes mh)\<rparr>"

text \<open>
  Modelled from the spec: \<open>downsample(num=None, scaled=None)\<close> takes exactly one selector and
  coarsens only. It fails when the requested resolution is finer than the sketch has (a
  larger sample count, a smaller rate) and when the sketch is of the other kind. The
  abundance mode and the identity metadata are kept.
\<close>

definition downsample :: "MinHash \<Rightarrow> int option \<Rightarrow> int option \<Rightarrow> error + MinHash" where
  "downsample mh n s =
     (case (n, s) of
        (None, None) \<Rightarrow> Inl (ValueError ''downsample: no resolution given'')
      | (Some k, Some r) \<Rightarrow> Inl (ValueError ''downsample: both resolutions given'')
      | (Some k, None) \<Rightarrow>
          if scaled mh \<noteq> 0 then Inl (ValueError ''downsample: fixed-rate sketch, sample count given'')
          else if k < 0 \<or> int (num mh) < k then Inl (ValueError ''downsample: sample count finer than the sketch'')
          else Inr (mh\<lparr>num := nat k, hashes := take (nat k) (sort_key fst (hashes mh))\<rparr>)
      | (None, Some r) \<Rightarrow>
          if num mh \<noteq> 0 then Inl (ValueError ''downsample: fixed-size sketch, rate given'')
          else if r < int (scaled mh) then Inl (ValueError ''downsample: rate finer than the sketch'')
          else Inr (mh\<lparr>scaled := nat r, hashes := filter (\<lambda>(h, a). h * nat r < 2 ^ 64) (hashes mh)\<rparr>))"

text \<open>
  Modelled from the spec: \<open>is_compatible\<close> compares k-mer size, molecule type and resolution.
  The resolution it compares is the rate: the source notes that it
  \<^verbatim>\<open>checks scaled (though does not check num)\<close>.
\<close>

definition is_compatible :: "MinHash \<Rightarrow> MinHash \<Rightarrow> bool" where
  "is_compatible a b \<longleftrightarrow>
     mh_ksize a = mh_ksize b \<and> mh_moltype a = mh_moltype b \<and> scaled a = scaled b"

text \<open>Modelled from the spec: \<open>intersection\<close> is the set intersection of two sketches.\<close>

definition intersection :: "MinHash \<Rightarrow> MinHash \<Rightarrow> MinHash" where
  "intersection a b = a\<lparr>hashes := filter (\<lambda>(h, v). h \<in> fst ` set (hashes b)) (hashes a)\<rparr>"

text \<open>
  Modelled from the spec: \<open>copy_and_clear\<close> is a sketch of the same parameters without
  hashes, and \<open>set_abundances\<close> stores a mapping from hash to abundance.
\<close>

definition copy_and_clear :: "MinHash \<Rightarrow> MinHash" where
  "copy_and_clear mh = mh\<lparr>hashes := []\<rparr>"

definition set_abundances :: "MinHash \<Rightarrow> (nat \<times> int) list \<Rightarrow> MinHash" where
  "set_abundances mh vals = mh\<lparr>hashes := vals\<rparr>"

text \<open>
  Modelled from the spec: an ANI estimate is a point estimate with optional bounds of a
  confidence interval.
\<close>

record ANIResult =
  ani :: real
  ani_low :: "real option"
  ani_high :: "real option"

text \<open>
  Modelled from the spec: the numeric statistics of the engine. The spec gives their
  signatures and not their formulas, so they are parameters of the model; floating-point
  values are read as reals.
\<close>

record sketch_engine =
  mh_jaccard :: "MinHash \<Rightarrow> MinHash \<Rightarrow> real"
  mh_jaccard_ani :: "MinHash \<Rightarrow> MinHash \<Rightarrow> ANIResult"
  mh_angular :: "MinHash \<Rightarrow> MinHash \<Rightarrow> real"
  mh_contained_by :: "MinHash \<Rightarrow> MinHash \<Rightarrow> real"
  mh_containment_ani :: "MinHash \<Rightarrow> MinHash \<Rightarrow> real \<Rightarrow> bool \<Rightarrow> ANIResult"
  mh_max_containment :: "MinHash \<Rightarrow> MinHash \<Rightarrow> real"
  mh_max_containment_ani :: "MinHash \<Rightarrow> MinHash \<Rightarrow> real \<Rightarrow> bool \<Rightarrow> ANIResult"

text \<open>
  Modelled from the spec: \<open>angular_similarity\<close> of the engine fails if either side lacks
  abundance.
\<close>

definition mh_angular_similarity :: "sketch_engine \<Rightarrow> MinHash \<Rightarrow> MinHash \<Rightarrow> error + real" where
  "mh_angular_similarity E a b =
     (if track_abundance a \<and> track_abundance b then Inr (mh_angular E a b)
      else Inl (TypeError ''angular_similarity: abundance is not tracked''))"

section \<open>Python helpers\<close>

text \<open>\<^verbatim>\<open>x and y\<close> on integers is \<open>x\<close> when \<open>x\<close> is falsy, else \<open>y\<close>; \<^verbatim>\<open>any\<close> tests truthiness.\<close>

definition py_and :: "nat \<Rightarrow> nat \<Rightarrow> nat" where
  "py_and x y = (if x = 0 then x else y)"

definition py_any :: "nat list \<Rightarrow> bool" where
  "py_any xs = list_ex (\<lambda>v. v \<noteq> 0) xs"

text \<open>\<^verbatim>\<open>np.mean\<close> of a list of numbers.\<close>

definition np_mean :: "real list \<Rightarrow> real" where
  "np_mean xs = sum_list xs / real (length xs)"

section \<open>BaseMinHashComparison\<close>

text \<open>
  The dataclass fields \<open>mh1\<close>, \<open>mh2\<close>, \<open>ignore_abundance\<close>, and the attributes the methods
  assign later: \<open>None\<close> while unassigned.
\<close>

record BaseMinHashComparison =
  mh1 :: MinHash
  mh2 :: MinHash
  ignore_abundance :: bool
  mh1_cmp :: "MinHash option"
  mh2_cmp :: "MinHash option"
  ksize :: "nat option"
  moltype :: "string option"

definition downsample_and_handle_ignore_abundance ::
  "'a BaseMinHashComparison_scheme \<Rightarrow> int option \<Rightarrow> int option \<Rightarrow>
   'a BaseMinHashComparison_scheme effect" where
  "downsample_and_handle_ignore_abundance self cmp_num cmp_scaled =
     (let a0 = (if ignore_abundance self then flatten (mh1 self) else mh1 self);
          b0 = (if ignore_abundance self then flatten (mh2 self) else mh2 self);
          s0 = self\<lparr>mh1_cmp := Some a0, mh2_cmp := Some b0\<rparr>
      in if cmp_scaled \<noteq> None then
           (case downsample a0 None cmp_scaled of
              Inl e \<Rightarrow> Inl (e, s0)
            | Inr a \<Rightarrow>
                (case downsample b0 None cmp_scaled of
                   Inl e \<Rightarrow> Inl (e, s0\<lparr>mh1_cmp := Some a\<rparr>)
                 | Inr b \<Rightarrow> Inr (s0\<lparr>mh1_cmp := Some a, mh2_cmp := Some b\<rparr>)))
         else if cmp_num \<noteq> None then
           (case downsample a0 cmp_num None of
              Inl e \<Rightarrow> Inl (e, s0)
            | Inr a \<Rightarrow>
                (case downsample b0 cmp_num None of
                   Inl e \<Rightarrow> Inl (e, s0\<lparr>mh1_cmp := Some a\<rparr>)
                 | Inr b \<Rightarrow> Inr (s0\<lparr>mh1_cmp := Some a, mh2_cmp := Some b\<rparr>)))
         else Inl (ValueError ''Error: must pass in a comparison scaled or num value.'', s0))"

definition check_compatibility_and_downsample ::
  "'a BaseMinHashComparison_scheme \<Rightarrow> int option \<Rightarrow> int option \<Rightarrow>
   'a BaseMinHashComparison_scheme effect" where
  "check_compatibility_and_downsample self cmp_num cmp_scaled =
     (if \<not> py_any [py_and (num (mh1 self)) (num (mh2 self)),
                    py_and (scaled (mh1 self)) (scaled (mh2 self))]
      then Inl (TypeError ''Error: Both sketches must be 'num' or 'scaled'.'', self)
      else
        (case downsample_and_handle_ignore_abundance self cmp_num cmp_scaled of
           Inl es \<Rightarrow> Inl es
         | Inr s \<Rightarrow>
             (case (mh1_cmp s, mh2_cmp s) of
                (Some a, Some b) \<Rightarrow>
                  if \<not> is_compatible a b
                  then Inl (TypeError ''Error: Cannot compare incompatible sketches.'', s)
                  else Inr (s\<lparr>ksize := Some (mh_ksize (mh1 s)),
                              moltype := Some (mh_moltype (mh1 s))\<rparr>)
              | _ \<Rightarrow> Inl (AttributeError ''mh1_cmp'', s))))"

text \<open>Reading the two normalized sketches of an object.\<close>

definition cmp_pair :: "'a BaseMinHashComparison_scheme \<Rightarrow> error + (MinHash \<times> MinHash)" where
  "cmp_pair self =
     (case mh1_cmp self of
        None \<Rightarrow> Inl (AttributeError ''mh1_cmp'')
      | Some a \<Rightarrow>
          (case mh2_cmp self of
             None \<Rightarrow> Inl (AttributeError ''mh2_cmp'')
           | Some b \<Rightarrow> Inr (a, b)))"

definition intersect_mh :: "'a BaseMinHashComparison_scheme \<Rightarrow> error + MinHash" where
  "intersect_mh self =
     (case cmp_pair self of
        Inl e \<Rightarrow> Inl e
      | Inr (a, b) \<Rightarrow> Inr (intersection (flatten a) (flatten b)))"

definition jaccard :: "sketch_engine \<Rightarrow> 'a BaseMinHashComparison_scheme \<Rightarrow> error + real" where
  "jaccard E self =
     (case cmp_pair self of Inl e \<Rightarrow> Inl e | Inr (a, b) \<Rightarrow> Inr (mh_jaccard E a b))"

definition jaccard_ani ::
  "sketch_engine \<Rightarrow> 'a BaseMinHashComparison_scheme \<Rightarrow> error + ANIResult" where
  "jaccard_ani E self =
     (case cmp_pair self of Inl e \<Rightarrow> Inl e | Inr (a, b) \<Rightarrow> Inr (mh_jaccard_ani E a b))"

definition angular_similarity ::
  "sketch_engine \<Rightarrow> 'a BaseMinHashComparison_scheme \<Rightarrow> error + real" where
  "angular_similarity E self =
     (case cmp_pair self of Inl e \<Rightarrow> Inl e | Inr (a, b) \<Rightarrow> mh_angular_similarity E a b)"

definition cosine_similarity ::
  "sketch_engine \<Rightarrow> 'a BaseMinHashComparison_scheme \<Rightarrow> error + real" where
  "cosine_similarity E self = angular_similarity E self"

section \<open>NumMinHashComparison\<close>

record NumMinHashComparison = BaseMinHashComparison +
  cmp_num :: "int option"

definition NumMinHashComparison_post_init ::
  "'a NumMinHashComparison_scheme \<Rightarrow> 'a NumMinHashComparison_scheme effect" where
  "NumMinHashComparison_post_init self =
     (let s = (if cmp_num self = None
               then self\<lparr>cmp_num := Some (int (min (num (mh1 self)) (num (mh2 self))))\<rparr>
               else self)
      in check_compatibility_and_downsample s (cmp_num s) None)"

text \<open>
  The generated \<open>__init__\<close>: it stores the fields and runs \<open>__post_init__\<close>; an exception
  leaves the caller without an object.
\<close>

definition NumMinHashComparison_init ::
  "MinHash \<Rightarrow> MinHash \<Rightarrow> bool \<Rightarrow> int option \<Rightarrow> error + NumMinHashComparison" where
  "NumMinHashComparison_init m1 m2 ia cn =
     (case NumMinHashComparison_post_init
             \<lparr>mh1 = m1, mh2 = m2, ignore_abundance = ia, mh1_cmp = None, mh2_cmp = None,
              ksize = None, moltype = None, cmp_num = cn\<rparr> of
        Inl (e, s) \<Rightarrow> Inl e
      | Inr s \<Rightarrow> Inr s)"

section \<open>FracMinHashComparison\<close>

record FracMinHashComparison = BaseMinHashComparison +
  cmp_scaled :: "int option"
  threshold_bp :: int
  estimate_ani_ci :: bool
  ani_confidence :: real

definition FracMinHashComparison_post_init ::
  "'a FracMinHashComparison_scheme \<Rightarrow> 'a FracMinHashComparison_scheme effect" where
  "FracMinHashComparison_post_init self =
     (let s = (if cmp_scaled self = None
               then self\<lparr>cmp_scaled := Some (int (max (scaled (mh1 self)) (scaled (mh2 self))))\<rparr>
               else self)
      in check_compatibility_and_downsample s None (cmp_scaled s))"

definition FracMinHashComparison_init ::
  "MinHash \<Rightarrow> MinHash \<Rightarrow> bool \<Rightarrow> int option \<Rightarrow> int \<Rightarrow> bool \<Rightarrow> real \<Rightarrow>
   error + FracMinHashComparison" where
  "FracMinHashComparison_init m1 m2 ia cs tbp ci conf =
     (case FracMinHashComparison_post_init
             \<lparr>mh1 = m1, mh2 = m2, ignore_abundance = ia, mh1_cmp = None, mh2_cmp = None,
              ksize = None, moltype = None, cmp_scaled = cs, threshold_bp = tbp,
              estimate_ani_ci = ci, ani_confidence = conf\<rparr> of
        Inl (e, s) \<Rightarrow> Inl e
      | Inr s \<Rightarrow> Inr s)"

text \<open>Reading the two normalized sketches, the second one first.\<close>

definition cmp_pair_rev :: "'a BaseMinHashComparison_scheme \<Rightarrow> error + (MinHash \<times> MinHash)" where
  "cmp_pair_rev self =
     (case mh2_cmp self of
        None \<Rightarrow> Inl (AttributeError ''mh2_cmp'')
      | Some b \<Rightarrow>
          (case mh1_cmp self of
             None \<Rightarrow> Inl (AttributeError ''mh1_cmp'')
           | Some a \<Rightarrow> Inr (b, a)))"

definition intersect_bp :: "'a FracMinHashComparison_scheme \<Rightarrow> error + int" where
  "intersect_bp self =
     (case intersect_mh self of
        Inl e \<Rightarrow> Inl e
      | Inr m \<Rightarrow>
          (case cmp_scaled self of
             None \<Rightarrow> Inl (TypeError ''unsupported operand type(s) for *'')
           | Some r \<Rightarrow> Inr (int (length (hashes m)) * r)))"

definition pass_threshold :: "'a FracMinHashComparison_scheme \<Rightarrow> error + bool" where
  "pass_threshold self =
     (case intersect_bp self of
        Inl e \<Rightarrow> Inl e
      | Inr bp \<Rightarrow> Inr (bp \<ge> threshold_bp self))"

definition mh1_containment ::
  "sketch_engine \<Rightarrow> 'a FracMinHashComparison_scheme \<Rightarrow> error + real" where
  "mh1_containment E self =
     (case cmp_pair self of Inl e \<Rightarrow> Inl e | Inr (a, b) \<Rightarrow> Inr (mh_contained_by E a b))"

definition mh1_containment_ani ::
  "sketch_engine \<Rightarrow> 'a FracMinHashComparison_scheme \<Rightarrow> error + ANIResult" where
  "mh1_containment_ani E self =
     (case cmp_pair self of
        Inl e \<Rightarrow> Inl e
      | Inr (a, b) \<Rightarrow>
          Inr (mh_containment_ani E a b (ani_confidence self) (estimate_ani_ci self)))"

definition mh2_containment ::
  "sketch_engine \<Rightarrow> 'a FracMinHashComparison_scheme \<Rightarrow> error + real" where
  "mh2_containment E self =
     (case cmp_pair_rev self of Inl e \<Rightarrow> Inl e | Inr (b, a) \<Rightarrow> Inr (mh_contained_by E b a))"

definition mh2_containment_ani ::
  "sketch_engine \<Rightarrow> 'a FracMinHashComparison_scheme \<Rightarrow> error + ANIResult" where
  "mh2_containment_ani E self =
     (case cmp_pair_rev self of
        Inl e \<Rightarrow> Inl e
      | Inr (b, a) \<Rightarrow>
          Inr (mh_containment_ani E b a (ani_confidence self) (estimate_ani_ci self)))"

definition max_containment ::
  "sketch_engine \<Rightarrow> 'a FracMinHashComparison_scheme \<Rightarrow> error + real" where
  "max_containment E self =
     (case cmp_pair self of Inl e \<Rightarrow> Inl e | Inr (a, b) \<Rightarrow> Inr (mh_max_containment E a b))"

definition max_containment_ani ::
  "sketch_engine \<Rightarrow> 'a FracMinHashComparison_scheme \<Rightarrow> error + ANIResult" where
  "max_containment_ani E self =
     (case cmp_pair self of
        Inl e \<Rightarrow> Inl e
      | Inr (a, b) \<Rightarrow>
          Inr (mh_max_containment_ani E a b (ani_confidence self) (estimate_ani_ci self)))"

definition avg_containment ::
  "sketch_engine \<Rightarrow> 'a FracMinHashComparison_scheme \<Rightarrow> error + real" where
  "avg_containment E self =
     (case mh1_containment E self of
        Inl e \<Rightarrow> Inl e
      | Inr x \<Rightarrow>
          (case mh2_containment E self of
             Inl e \<Rightarrow> Inl e
           | Inr y \<Rightarrow> Inr (np_mean [x, y])))"

definition avg_containment_ani ::
  "sketch_engine \<Rightarrow> 'a FracMinHashComparison_scheme \<Rightarrow> error + real" where
  "avg_containment_ani E self =
     (case mh1_containment_ani E self of
        Inl e \<Rightarrow> Inl e
      | Inr x \<Rightarrow>
          (case mh2_containment_ani E self of
             Inl e \<Rightarrow> Inl e
           | Inr y \<Rightarrow> Inr (np_mean [ani x, ani y])))"

text \<open>
  \<open>from_mh\<close> is \<open>None\<close> by default and \<open>from_abundD\<close> is the empty dictionary by default; a
  dictionary is an association list, falsy when empty, and \<open>get(k, 1)\<close> is the lookup with
  default 1.
\<close>

definition dict_get :: "(nat \<times> int) list \<Rightarrow> nat \<Rightarrow> int \<Rightarrow> int" where
  "dict_get d k dflt = (case map_of d k of None \<Rightarrow> dflt | Some v \<Rightarrow> v)"

definition weighted_intersection ::
  "'a FracMinHashComparison_scheme \<Rightarrow> MinHash option \<Rightarrow> (nat \<times> int) list \<Rightarrow> error + MinHash" where
  "weighted_intersection self from_mh from_abundD =
     (case intersect_mh self of
        Inl e \<Rightarrow> Inl e
      | Inr im \<Rightarrow>
          (let abund_mh = (copy_and_clear im)\<lparr>track_abundance := True\<rparr>;
               abundD = (case from_mh of
                           None \<Rightarrow> from_abundD
                         | Some m \<Rightarrow> if track_abundance m then hashes m else from_abundD)
           in if abundD \<noteq> [] then
                Inr (set_abundances abund_mh
                       (map (\<lambda>k. (k, dict_get abundD k 1)) (map fst (hashes im))))
              else Inr im))"

section \<open>Kinds of sketches and the documented policy of weighted intersection\<close>

text \<open>
  A sketch is of exactly one kind: fixed-size (\<open>num\<close> set, \<open>scaled\<close> zero) or fixed-rate
  (\<open>scaled\<close> set, \<open>num\<close> zero). A pair is mixed when the kinds differ.
\<close>

definition is_num_sketch :: "MinHash \<Rightarrow> bool" where
  "is_num_sketch mh \<longleftrightarrow> num mh \<noteq> 0 \<and> scaled mh = 0"

definition is_scaled_sketch :: "MinHash \<Rightarrow> bool" where
  "is_scaled_sketch mh \<longleftrightarrow> scaled mh \<noteq> 0 \<and> num mh = 0"

definition mixed_kinds :: "MinHash \<Rightarrow> MinHash \<Rightarrow> bool" where
  "mixed_kinds a b \<longleftrightarrow>
     is_num_sketch a \<and> is_scaled_sketch b \<or> is_scaled_sketch a \<and> is_num_sketch b"

text \<open>
  The intersection tagged with abundances from a source mapping, a hash absent from the
  source getting abundance 1.
\<close>

definition tagged_intersection :: "MinHash \<Rightarrow> (nat \<times> int) list \<Rightarrow> MinHash" where
  "tagged_intersection im src =
     set_abundances ((copy_and_clear im)\<lparr>track_abundance := True\<rparr>)
       (map (\<lambda>k. (k, dict_get src k 1)) (map fst (hashes im)))"

text \<open>
  The policy of \<open>weighted_intersection\<close> in the words of its specification: a source sketch
  that tracks abundance is used; otherwise the explicit mapping is used; with neither, the
  plain intersection is returned.
\<close>

definition weighted_intersection_spec ::
  "'a FracMinHashComparison_scheme \<Rightarrow> MinHash option \<Rightarrow> (nat \<times> int) list \<Rightarrow> error + MinHash" where
  "weighted_intersection_spec self from_mh from_abundD =
     (case intersect_mh self of
        Inl e \<Rightarrow> Inl e
      | Inr im \<Rightarrow>
          (case from_mh of
             Some m \<Rightarrow>
               if track_abundance m then Inr (tagged_intersection im (hashes m))
               else if from_abundD \<noteq> [] then Inr (tagged_intersection im from_abundD)
               else Inr im
           | None \<Rightarrow>
               if from_abundD \<noteq> [] then Inr (tagged_intersection im from_abundD)
               else Inr im))"

section \<open>Example sketches\<close>

definition ex_scaled10 :: MinHash where
  "ex_scaled10 = \<lparr>num = 0, scaled = 10, mh_ksize = 21, mh_moltype = ''DNA'',
                   track_abundance = True, hashes = [(3, 2), (7, 5), (9, 1)]\<rparr>"

definition ex_scaled20 :: MinHash where
  "ex_scaled20 = \<lparr>num = 0, scaled = 20, mh_ksize = 21, mh_moltype = ''DNA'',
                   track_abundance = False, hashes = [(7, 1), (9, 1), (11, 1)]\<rparr>"

definition ex_num500 :: MinHash where
  "ex_num500 = \<lparr>num = 500, scaled = 0, mh_ksize = 21, mh_moltype = ''DNA'',
                 track_abundance = False, hashes = [(3, 1), (7, 1)]\<rparr>"

definition ex_num300 :: MinHash where
  "ex_num300 = \<lparr>num = 300, scaled = 0, mh_ksize = 21, mh_moltype = ''DNA'',
                 track_abundance = True, hashes = [(7, 4), (8, 1)]\<rparr>"

definition ex_empty_source :: MinHash where
  "ex_empty_source = \<lparr>num = 0, scaled = 20, mh_ksize = 21, mh_moltype = ''DNA'',
                       track_abundance = True, hashes = []\<rparr>"

text \<open>
  An engine for the examples: Jaccard index and containment by counting common hashes, each
  ANI estimate taken to be the statistic itself.
\<close>

definition ex_common :: "MinHash \<Rightarrow> MinHash \<Rightarrow> nat" where
  "ex_common a b = length (filter (\<lambda>(h, v). h \<in> fst ` set (hashes b)) (hashes a))"

definition ex_contained_by :: "MinHash \<Rightarrow> MinHash \<Rightarrow> real" where
  "ex_contained_by a b =
     (if hashes a = [] then 0 else real (ex_common a b) / real (length (hashes a)))"

definition ex_jaccard :: "MinHash \<Rightarrow> MinHash \<Rightarrow> real" where
  "ex_jaccard a b =
     (if hashes a = [] \<and> hashes b = [] then 0
      else real (ex_common a b) /
           real (length (remdups (map fst (hashes a) @ map fst (hashes b)))))"

definition ex_estimate :: "real \<Rightarrow> bool \<Rightarrow> ANIResult" where
  "ex_estimate x ci =
     \<lparr>ani = x, ani_low = (if ci then Some 0 else None), ani_high = (if ci then Some 1 else None)\<rparr>"

definition ex_engine :: sketch_engine where
  "ex_engine =
     \<lparr>mh_jaccard = ex_jaccard,
      mh_jaccard_ani = (\<lambda>a b. ex_estimate (ex_jaccard a b) False),
      mh_angular = (\<lambda>a b. 0),
      mh_contained_by = ex_contained_by,
      mh_containment_ani = (\<lambda>a b conf ci. ex_estimate (ex_contained_by a b) ci),
      mh_max_containment = (\<lambda>a b. max (ex_contained_by a b) (ex_contained_by b a)),
      mh_max_containment_ani =
        (\<lambda>a b conf ci. ex_estimate (max (ex_contained_by a b) (ex_contained_by b a)) ci)\<rparr>"

section \<open>The normalizer, step by step\<close>

lemma effect_state_simps [simp]:
  "effect_state (Inl (e, s)) = s" "effect_state (Inr s) = s"
  by (simp_all add: effect_state_def)

lemma dhia_unfold:
  fixes self :: "'a BaseMinHashComparison_scheme"
  assumes a0: "a0 = (if ignore_abundance self then flatten (mh1 self) else mh1 self)"
      and b0: "b0 = (if ignore_abundance self then flatten (mh2 self) else mh2 self)"
      and s0: "s0 = self\<lparr>mh1_cmp := Some a0, mh2_cmp := Some b0\<rparr>"
  shows "downsample_and_handle_ignore_abundance self n r =
     (if r \<noteq> None then
           (case downsample a0 None r of
              Inl e \<Rightarrow> Inl (e, s0)
            | Inr a \<Rightarrow>
                (case downsample b0 None r of
                   Inl e \<Rightarrow> Inl (e, s0\<lparr>mh1_cmp := Some a\<rparr>)
                 | Inr b \<Rightarrow> Inr (s0\<lparr>mh1_cmp := Some a, mh2_cmp := Some b\<rparr>)))
         else if n \<noteq> None then
           (case downsample a0 n None of
              Inl e \<Rightarrow> Inl (e, s0)
            | Inr a \<Rightarrow>
                (case downsample b0 n None of
                   Inl e \<Rightarrow> Inl (e, s0\<lparr>mh1_cmp := Some a\<rparr>)
                 | Inr b \<Rightarrow> Inr (s0\<lparr>mh1_cmp := Some a, mh2_cmp := Some b\<rparr>)))
         else Inl (ValueError ''Error: must pass in a comparison scaled or num value.'', s0))"
  unfolding downsample_and_handle_ignore_abundance_def Let_def s0 a0 b0 by (rule refl)

lemma dhia_Inr:
  fixes self :: "'a BaseMinHashComparison_scheme"
  assumes "downsample_and_handle_ignore_abundance self n r = Inr s"
  obtains a b where
    "downsample (if ignore_abundance self then flatten (mh1 self) else mh1 self) (if r = None then n else None) r = Inr a"
    "downsample (if ignore_abundance self then flatten (mh2 self) else mh2 self) (if r = None then n else None) r = Inr b"
    "s = self\<lparr>mh1_cmp := Some a, mh2_cmp := Some b\<rparr>"
proof -
  define a0 where "a0 = (if ignore_abundance self then flatten (mh1 self) else mh1 self)"
  define b0 where "b0 = (if ignore_abundance self then flatten (mh2 self) else mh2 self)"
  define s0 where "s0 = self\<lparr>mh1_cmp := Some a0, mh2_cmp := Some b0\<rparr>"
  note u = dhia_unfold [OF a0_def b0_def s0_def, of n r]
  have "\<exists>a b. downsample a0 (if r = None then n else None) r = Inr a \<and>
    downsample b0 (if r = None then n else None) r = Inr b \<and> s = s0\<lparr>mh1_cmp := Some a, mh2_cmp := Some b\<rparr>"
    using assms unfolding u by (cases "r = None"; cases "n = None") (auto split: sum.splits)
  then obtain a b where ab: "downsample a0 (if r = None then n else None) r = Inr a"
    "downsample b0 (if r = None then n else None) r = Inr b" "s = s0\<lparr>mh1_cmp := Some a, mh2_cmp := Some b\<rparr>"
    by blast
  have "s = self\<lparr>mh1_cmp := Some a, mh2_cmp := Some b\<rparr>"
    unfolding ab(3) s0_def by simp
  then show ?thesis using ab(1,2) that unfolding a0_def b0_def by blast
qed

lemma dhia_Inl:
  fixes self :: "'a BaseMinHashComparison_scheme"
  assumes "downsample_and_handle_ignore_abundance self n r = Inl (e, s)"
  shows "\<exists>x y. s = self\<lparr>mh1_cmp := x, mh2_cmp := y\<rparr>"
proof -
  define a0 where "a0 = (if ignore_abundance self then flatten (mh1 self) else mh1 self)"
  define b0 where "b0 = (if ignore_abundance self then flatten (mh2 self) else mh2 self)"
  define s0 where "s0 = self\<lparr>mh1_cmp := Some a0, mh2_cmp := Some b0\<rparr>"
  note u = dhia_unfold [OF a0_def b0_def s0_def, of n r]
  have "s = s0 \<or> (\<exists>a. s = s0\<lparr>mh1_cmp := Some a\<rparr>)"
    using assms unfolding u by (cases "r = None"; cases "n = None") (auto split: sum.splits)
  then show ?thesis
  proof
    assume "s = s0"
    then have "s = self\<lparr>mh1_cmp := Some a0, mh2_cmp := Some b0\<rparr>" by (simp add: s0_def)
    then show ?thesis by blast
  next
    assume "\<exists>a. s = s0\<lparr>mh1_cmp := Some a\<rparr>"
    then obtain a where "s = s0\<lparr>mh1_cmp := Some a\<rparr>" by blast
    then have "s = self\<lparr>mh1_cmp := Some a, mh2_cmp := Some b0\<rparr>" by (simp add: s0_def)
    then show ?thesis by blast
  qed
qed

lemma dhia_frame:
  fixes self :: "'a BaseMinHashComparison_scheme"
  shows "\<exists>x y. effect_state (downsample_and_handle_ignore_abundance self n r) = self\<lparr>mh1_cmp := x, mh2_cmp := y\<rparr>"
proof (cases "downsample_and_handle_ignore_abundance self n r")
  case (Inl es)
  obtain e s where "es = (e, s)" by (cases es)
  with Inl dhia_Inl [of self n r e s] show ?thesis by simp
next
  case (Inr s)
  from dhia_Inr [OF Inr] obtain a b where "s = self\<lparr>mh1_cmp := Some a, mh2_cmp := Some b\<rparr>" by blast
  with Inr show ?thesis by auto
qed

lemma check_kind_fail:
  fixes self :: "'a BaseMinHashComparison_scheme"
  assumes "\<not> py_any [py_and (num (mh1 self)) (num (mh2 self)), py_and (scaled (mh1 self)) (scaled (mh2 self))]"
  shows "check_compatibility_and_downsample self n r =
           Inl (TypeError ''Error: Both sketches must be 'num' or 'scaled'.'', self)"
  using assms by (simp add: check_compatibility_and_downsample_def)

lemma check_kind_ok:
  fixes self :: "'a BaseMinHashComparison_scheme"
  assumes "py_any [py_and (num (mh1 self)) (num (mh2 self)), py_and (scaled (mh1 self)) (scaled (mh2 self))]"
  shows "check_compatibility_and_downsample self n r =
        (case downsample_and_handle_ignore_abundance self n r of
           Inl es \<Rightarrow> Inl es
         | Inr s \<Rightarrow>
             (case (mh1_cmp s, mh2_cmp s) of
                (Some a, Some b) \<Rightarrow>
                  if \<not> is_compatible a b
                  then Inl (TypeError ''Error: Cannot compare incompatible sketches.'', s)
                  else Inr (s\<lparr>ksize := Some (mh_ksize (mh1 s)),
                              moltype := Some (mh_moltype (mh1 s))\<rparr>)
              | _ \<Rightarrow> Inl (AttributeError ''mh1_cmp'', s)))"
  using assms unfolding check_compatibility_and_downsample_def by simp

lemma check_after_downsample:
  fixes self :: "'a BaseMinHashComparison_scheme"
  assumes k: "py_any [py_and (num (mh1 self)) (num (mh2 self)), py_and (scaled (mh1 self)) (scaled (mh2 self))]"
      and d: "downsample_and_handle_ignore_abundance self n r = Inr s"
  obtains a b where
    "downsample (if ignore_abundance self then flatten (mh1 self) else mh1 self) (if r = None then n else None) r = Inr a"
    "downsample (if ignore_abundance self then flatten (mh2 self) else mh2 self) (if r = None then n else None) r = Inr b"
    "s = self\<lparr>mh1_cmp := Some a, mh2_cmp := Some b\<rparr>"
    "check_compatibility_and_downsample self n r =
       (if \<not> is_compatible a b
        then Inl (TypeError ''Error: Cannot compare incompatible sketches.'', s)
        else Inr (self\<lparr>mh1_cmp := Some a, mh2_cmp := Some b,
                       ksize := Some (mh_ksize (mh1 self)), moltype := Some (mh_moltype (mh1 self))\<rparr>))"
proof -
  from dhia_Inr [OF d] obtain a b where ab:
    "downsample (if ignore_abundance self then flatten (mh1 self) else mh1 self) (if r = None then n else None) r = Inr a"
    "downsample (if ignore_abundance self then flatten (mh2 self) else mh2 self) (if r = None then n else None) r = Inr b"
    "s = self\<lparr>mh1_cmp := Some a, mh2_cmp := Some b\<rparr>" by blast
  have sel: "mh1_cmp s = Some a" "mh2_cmp s = Some b" "mh1 s = mh1 self"
    unfolding ab(3) by simp_all
  have upd: "s\<lparr>ksize := Some (mh_ksize (mh1 self)), moltype := Some (mh_moltype (mh1 self))\<rparr> =
     self\<lparr>mh1_cmp := Some a, mh2_cmp := Some b,
                       ksize := Some (mh_ksize (mh1 self)), moltype := Some (mh_moltype (mh1 self))\<rparr>"
    unfolding ab(3) by simp
  have "check_compatibility_and_downsample self n r =
       (if \<not> is_compatible a b
        then Inl (TypeError ''Error: Cannot compare incompatible sketches.'', s)
        else Inr (s\<lparr>ksize := Some (mh_ksize (mh1 self)), moltype := Some (mh_moltype (mh1 self))\<rparr>))"
    unfolding check_kind_ok [OF k] d by (simp add: sel)
  then show ?thesis using that ab upd by simp
qed

lemma check_Inr:
  fixes self :: "'a BaseMinHashComparison_scheme"
  assumes c: "check_compatibility_and_downsample self n r = Inr c"
  obtains a b where
    "py_any [py_and (num (mh1 self)) (num (mh2 self)), py_and (scaled (mh1 self)) (scaled (mh2 self))]"
    "downsample (if ignore_abundance self then flatten (mh1 self) else mh1 self) (if r = None then n else None) r = Inr a"
    "downsample (if ignore_abundance self then flatten (mh2 self) else mh2 self) (if r = None then n else None) r = Inr b"
    "is_compatible a b"
    "c = self\<lparr>mh1_cmp := Some a, mh2_cmp := Some b,
              ksize := Some (mh_ksize (mh1 self)), moltype := Some (mh_moltype (mh1 self))\<rparr>"
proof -
  have k: "py_any [py_and (num (mh1 self)) (num (mh2 self)), py_and (scaled (mh1 self)) (scaled (mh2 self))]"
  proof (rule ccontr)
    assume "\<not> ?thesis"
    from check_kind_fail [OF this, of n r] c show False by simp
  qed
  obtain s where d: "downsample_and_handle_ignore_abundance self n r = Inr s"
    using c unfolding check_kind_ok [OF k] by (cases "downsample_and_handle_ignore_abundance self n r") simp_all
  from check_after_downsample [OF k d] obtain a b where ab:
    "downsample (if ignore_abundance self then flatten (mh1 self) else mh1 self) (if r = None then n else None) r = Inr a"
    "downsample (if ignore_abundance self then flatten (mh2 self) else mh2 self) (if r = None then n else None) r = Inr b"
    "check_compatibility_and_downsample self n r =
       (if \<not> is_compatible a b
        then Inl (TypeError ''Error: Cannot compare incompatible sketches.'', s)
        else Inr (self\<lparr>mh1_cmp := Some a, mh2_cmp := Some b,
                       ksize := Some (mh_ksize (mh1 self)), moltype := Some (mh_moltype (mh1 self))\<rparr>))"
    by blast
  have compat: "is_compatible a b" using c ab(3) by (cases "is_compatible a b") simp_all
  moreover have "c = self\<lparr>mh1_cmp := Some a, mh2_cmp := Some b,
              ksize := Some (mh_ksize (mh1 self)), moltype := Some (mh_moltype (mh1 self))\<rparr>"
    using c ab(3) compat by simp
  ultimately show ?thesis using that k ab(1,2) by blast
qed

lemma check_frame:
  fixes self :: "'a BaseMinHashComparison_scheme"
  shows "\<exists>x y k m. effect_state (check_compatibility_and_downsample self n r) =
           self\<lparr>mh1_cmp := x, mh2_cmp := y, ksize := k, moltype := m\<rparr>"
proof (cases "py_any [py_and (num (mh1 self)) (num (mh2 self)), py_and (scaled (mh1 self)) (scaled (mh2 self))]")
  case False
  have "self = self\<lparr>mh1_cmp := mh1_cmp self, mh2_cmp := mh2_cmp self, ksize := ksize self, moltype := moltype self\<rparr>"
    by simp
  then have "effect_state (check_compatibility_and_downsample self n r) =
     self\<lparr>mh1_cmp := mh1_cmp self, mh2_cmp := mh2_cmp self, ksize := ksize self, moltype := moltype self\<rparr>"
    unfolding check_kind_fail [OF False] by simp
  then show ?thesis by blast
next
  case True
  show ?thesis
  proof (cases "downsample_and_handle_ignore_abundance self n r")
    case (Inl es)
    obtain e s where es: "es = (e, s)" by (cases es)
    from dhia_Inl [of self n r e s] Inl es obtain x y where "s = self\<lparr>mh1_cmp := x, mh2_cmp := y\<rparr>" by auto
    then have "s = self\<lparr>mh1_cmp := x, mh2_cmp := y, ksize := ksize self, moltype := moltype self\<rparr>" by simp
    moreover have "effect_state (check_compatibility_and_downsample self n r) = s"
      unfolding check_kind_ok [OF True] Inl es by simp
    ultimately show ?thesis by metis
  next
    case (Inr s)
    from check_after_downsample [OF True Inr] obtain a b where ab:
      "s = self\<lparr>mh1_cmp := Some a, mh2_cmp := Some b\<rparr>"
      "check_compatibility_and_downsample self n r =
       (if \<not> is_compatible a b
        then Inl (TypeError ''Error: Cannot compare incompatible sketches.'', s)
        else Inr (self\<lparr>mh1_cmp := Some a, mh2_cmp := Some b,
                       ksize := Some (mh_ksize (mh1 self)), moltype := Some (mh_moltype (mh1 self))\<rparr>))"
      by blast
    have s': "s = self\<lparr>mh1_cmp := Some a, mh2_cmp := Some b, ksize := ksize self, moltype := moltype self\<rparr>"
      unfolding ab(1) by simp
    show ?thesis
    proof (cases "is_compatible a b")
      case True
      then have "effect_state (check_compatibility_and_downsample self n r) =
         self\<lparr>mh1_cmp := Some a, mh2_cmp := Some b,
                       ksize := Some (mh_ksize (mh1 self)), moltype := Some (mh_moltype (mh1 self))\<rparr>"
        unfolding ab(2) by simp
      then show ?thesis by blast
    next
      case False
      then have "effect_state (check_compatibility_and_downsample self n r) = s"
        unfolding ab(2) by simp
      with s' show ?thesis by metis
    qed
  qed
qed

lemma check_eq:
  fixes self :: "'a BaseMinHashComparison_scheme"
  assumes r: "r \<noteq> None \<or> n \<noteq> None"
  shows "check_compatibility_and_downsample self n r =
     (if \<not> py_any [py_and (num (mh1 self)) (num (mh2 self)), py_and (scaled (mh1 self)) (scaled (mh2 self))]
      then Inl (TypeError ''Error: Both sketches must be 'num' or 'scaled'.'', self)
      else
        (case downsample (if ignore_abundance self then flatten (mh1 self) else mh1 self)
                (if r = None then n else None) r of
           Inl e \<Rightarrow> Inl (e, self\<lparr>mh1_cmp := Some (if ignore_abundance self then flatten (mh1 self) else mh1 self),
                                 mh2_cmp := Some (if ignore_abundance self then flatten (mh2 self) else mh2 self)\<rparr>)
         | Inr a \<Rightarrow>
             (case downsample (if ignore_abundance self then flatten (mh2 self) else mh2 self)
                     (if r = None then n else None) r of
                Inl e \<Rightarrow> Inl (e, self\<lparr>mh1_cmp := Some a,
                                 mh2_cmp := Some (if ignore_abundance self then flatten (mh2 self) else mh2 self)\<rparr>)
              | Inr b \<Rightarrow>
                  if \<not> is_compatible a b
                  then Inl (TypeError ''Error: Cannot compare incompatible sketches.'',
                            self\<lparr>mh1_cmp := Some a, mh2_cmp := Some b\<rparr>)
                  else Inr (self\<lparr>mh1_cmp := Some a, mh2_cmp := Some b,
                                  ksize := Some (mh_ksize (mh1 self)),
                                  moltype := Some (mh_moltype (mh1 self))\<rparr>))))"
proof (cases "py_any [py_and (num (mh1 self)) (num (mh2 self)), py_and (scaled (mh1 self)) (scaled (mh2 self))]")
  case False
  then show ?thesis using check_kind_fail [OF False, of n r] by simp
next
  case True
  define a0 where "a0 = (if ignore_abundance self then flatten (mh1 self) else mh1 self)"
  define b0 where "b0 = (if ignore_abundance self then flatten (mh2 self) else mh2 self)"
  define s0 where "s0 = self\<lparr>mh1_cmp := Some a0, mh2_cmp := Some b0\<rparr>"
  define sel where "sel = (if r = None then n else None)"
  have u: "downsample_and_handle_ignore_abundance self n r =
     (case downsample a0 sel r of
        Inl e \<Rightarrow> Inl (e, s0)
      | Inr a \<Rightarrow>
          (case downsample b0 sel r of
             Inl e \<Rightarrow> Inl (e, s0\<lparr>mh1_cmp := Some a\<rparr>)
           | Inr b \<Rightarrow> Inr (s0\<lparr>mh1_cmp := Some a, mh2_cmp := Some b\<rparr>)))"
  proof (cases r)
    case None
    then have n: "n \<noteq> None" using r by simp
    show ?thesis using dhia_unfold [OF a0_def b0_def s0_def, of n r] n unfolding sel_def None by simp
  next
    case (Some v)
    show ?thesis using dhia_unfold [OF a0_def b0_def s0_def, of n r] unfolding sel_def Some by simp
  qed
  have s0a: "\<And>a. s0\<lparr>mh1_cmp := Some a\<rparr> = self\<lparr>mh1_cmp := Some a, mh2_cmp := Some b0\<rparr>"
    unfolding s0_def by simp
  have s0ab: "\<And>a b. s0\<lparr>mh1_cmp := Some a, mh2_cmp := Some b\<rparr> = self\<lparr>mh1_cmp := Some a, mh2_cmp := Some b\<rparr>"
    unfolding s0_def by simp
  have goal: "check_compatibility_and_downsample self n r =
        (case downsample a0 sel r of
           Inl e \<Rightarrow> Inl (e, self\<lparr>mh1_cmp := Some a0, mh2_cmp := Some b0\<rparr>)
         | Inr a \<Rightarrow>
             (case downsample b0 sel r of
                Inl e \<Rightarrow> Inl (e, self\<lparr>mh1_cmp := Some a, mh2_cmp := Some b0\<rparr>)
              | Inr b \<Rightarrow>
                  if \<not> is_compatible a b
                  then Inl (TypeError ''Error: Cannot compare incompatible sketches.'',
                            self\<lparr>mh1_cmp := Some a, mh2_cmp := Some b\<rparr>)
                  else Inr (self\<lparr>mh1_cmp := Some a, mh2_cmp := Some b,
                                  ksize := Some (mh_ksize (mh1 self)),
                                  moltype := Some (mh_moltype (mh1 self))\<rparr>)))"
  proof (cases "downsample a0 sel r")
    case (Inl e)
    then show ?thesis unfolding check_kind_ok [OF True] u by (simp add: s0_def)
  next
    case a: (Inr a)
    show ?thesis
    proof (cases "downsample b0 sel r")
      case (Inl e)
      then show ?thesis unfolding check_kind_ok [OF True] u a by (simp add: s0a)
    next
      case b: (Inr b)
      show ?thesis unfolding check_kind_ok [OF True] u a b by (simp add: s0ab)
    qed
  qed
  show ?thesis using True goal unfolding a0_def b0_def sel_def by simp
qed

section \<open>What a successful construction yields\<close>

lemma downsample_keeps:
  assumes "downsample mh n r = Inr m"
  shows "track_abundance m = track_abundance mh \<and> mh_ksize m = mh_ksize mh \<and> mh_moltype m = mh_moltype mh"
  using assms
  by (cases n; cases r) (auto simp add: downsample_def split: if_splits)

lemma downsample_scaled_Inr:
  assumes "downsample mh None (Some r) = Inr m"
  shows "int (scaled mh) \<le> r \<and> scaled m = nat r \<and> num mh = 0"
  using assms by (auto simp add: downsample_def split: if_splits)

lemma downsample_num_Inr:
  assumes "downsample mh (Some k) None = Inr m"
  shows "0 \<le> k \<and> k \<le> int (num mh) \<and> num m = nat k \<and> scaled mh = 0"
  using assms by (auto simp add: downsample_def split: if_splits)

lemma flatten_simps [simp]:
  "track_abundance (flatten mh) = False"
  "num (flatten mh) = num mh"
  "scaled (flatten mh) = scaled mh"
  "mh_ksize (flatten mh) = mh_ksize mh"
  "mh_moltype (flatten mh) = mh_moltype mh"
  by (simp_all add: flatten_def)

lemma Num_init_Inr:
  assumes c: "NumMinHashComparison_init m1 m2 ia cn = Inr c"
  obtains a b k where
    "k = (case cn of None \<Rightarrow> int (min (num m1) (num m2)) | Some v \<Rightarrow> v)"
    "py_any [py_and (num m1) (num m2), py_and (scaled m1) (scaled m2)]"
    "downsample (if ia then flatten m1 else m1) (Some k) None = Inr a"
    "downsample (if ia then flatten m2 else m2) (Some k) None = Inr b"
    "is_compatible a b"
    "c = \<lparr>mh1 = m1, mh2 = m2, ignore_abundance = ia, mh1_cmp = Some a, mh2_cmp = Some b,
          ksize = Some (mh_ksize m1), moltype = Some (mh_moltype m1), cmp_num = Some k\<rparr>"
proof -
  define k where "k = (case cn of None \<Rightarrow> int (min (num m1) (num m2)) | Some v \<Rightarrow> v)"
  define s :: NumMinHashComparison where
    "s = \<lparr>mh1 = m1, mh2 = m2, ignore_abundance = ia, mh1_cmp = None, mh2_cmp = None,
          ksize = None, moltype = None, cmp_num = Some k\<rparr>"
  have post: "NumMinHashComparison_post_init
       \<lparr>mh1 = m1, mh2 = m2, ignore_abundance = ia, mh1_cmp = None, mh2_cmp = None,
          ksize = None, moltype = None, cmp_num = cn\<rparr> =
       check_compatibility_and_downsample s (Some k) None"
    unfolding NumMinHashComparison_post_init_def s_def k_def by (cases cn) (simp_all add: Let_def)
  have "check_compatibility_and_downsample s (Some k) None = Inr c"
    using c unfolding NumMinHashComparison_init_def post
    by (cases "check_compatibility_and_downsample s (Some k) None") (auto split: prod.splits)
  from check_Inr [OF this] obtain a b where ab:
    "py_any [py_and (num (mh1 s)) (num (mh2 s)), py_and (scaled (mh1 s)) (scaled (mh2 s))]"
    "downsample (if ignore_abundance s then flatten (mh1 s) else mh1 s) (if (None::int option) = None then Some k else None) None = Inr a"
    "downsample (if ignore_abundance s then flatten (mh2 s) else mh2 s) (if (None::int option) = None then Some k else None) None = Inr b"
    "is_compatible a b"
    "c = s\<lparr>mh1_cmp := Some a, mh2_cmp := Some b,
              ksize := Some (mh_ksize (mh1 s)), moltype := Some (mh_moltype (mh1 s))\<rparr>"
    by blast
  have sel: "mh1 s = m1" "mh2 s = m2" "ignore_abundance s = ia" by (simp_all add: s_def)
  have "c = \<lparr>mh1 = m1, mh2 = m2, ignore_abundance = ia, mh1_cmp = Some a, mh2_cmp = Some b,
          ksize = Some (mh_ksize m1), moltype = Some (mh_moltype m1), cmp_num = Some k\<rparr>"
    unfolding ab(5) by (simp add: s_def)
  then show ?thesis using that [OF k_def] ab(1-4) unfolding sel by simp
qed

lemma Frac_init_Inr:
  assumes c: "FracMinHashComparison_init m1 m2 ia cs tbp ci conf = Inr c"
  obtains a b r where
    "r = (case cs of None \<Rightarrow> int (max (scaled m1) (scaled m2)) | Some v \<Rightarrow> v)"
    "py_any [py_and (num m1) (num m2), py_and (scaled m1) (scaled m2)]"
    "downsample (if ia then flatten m1 else m1) None (Some r) = Inr a"
    "downsample (if ia then flatten m2 else m2) None (Some r) = Inr b"
    "is_compatible a b"
    "c = \<lparr>mh1 = m1, mh2 = m2, ignore_abundance = ia, mh1_cmp = Some a, mh2_cmp = Some b,
          ksize = Some (mh_ksize m1), moltype = Some (mh_moltype m1), cmp_scaled = Some r,
          threshold_bp = tbp, estimate_ani_ci = ci, ani_confidence = conf\<rparr>"
proof -
  define r where "r = (case cs of None \<Rightarrow> int (max (scaled m1) (scaled m2)) | Some v \<Rightarrow> v)"
  define s :: FracMinHashComparison where
    "s = \<lparr>mh1 = m1, mh2 = m2, ignore_abundance = ia, mh1_cmp = None, mh2_cmp = None,
          ksize = None, moltype = None, cmp_scaled = Some r,
          threshold_bp = tbp, estimate_ani_ci = ci, ani_confidence = conf\<rparr>"
  have post: "FracMinHashComparison_post_init
       \<lparr>mh1 = m1, mh2 = m2, ignore_abundance = ia, mh1_cmp = None, mh2_cmp = None,
          ksize = None, moltype = None, cmp_scaled = cs,
          threshold_bp = tbp, estimate_ani_ci = ci, ani_confidence = conf\<rparr> =
       check_compatibility_and_downsample s None (Some r)"
    unfolding FracMinHashComparison_post_init_def s_def r_def by (cases cs) (simp_all add: Let_def)
  have "check_compatibility_and_downsample s None (Some r) = Inr c"
    using c unfolding FracMinHashComparison_init_def post
    by (cases "check_compatibility_and_downsample s None (Some r)") (auto split: prod.splits)
  from check_Inr [OF this] obtain a b where ab:
    "py_any [py_and (num (mh1 s)) (num (mh2 s)), py_and (scaled (mh1 s)) (scaled (mh2 s))]"
    "downsample (if ignore_abundance s then flatten (mh1 s) else mh1 s) (if Some r = None then None else None) (Some r) = Inr a"
    "downsample (if ignore_abundance s then flatten (mh2 s) else mh2 s) (if Some r = None then None else None) (Some r) = Inr b"
    "is_compatible a b"
    "c = s\<lparr>mh1_cmp := Some a, mh2_cmp := Some b,
              ksize := Some (mh_ksize (mh1 s)), moltype := Some (mh_moltype (mh1 s))\<rparr>"
    by blast
  have sel: "mh1 s = m1" "mh2 s = m2" "ignore_abundance s = ia" by (simp_all add: s_def)
  have "c = \<lparr>mh1 = m1, mh2 = m2, ignore_abundance = ia, mh1_cmp = Some a, mh2_cmp = Some b,
          ksize = Some (mh_ksize m1), moltype = Some (mh_moltype m1), cmp_scaled = Some r,
          threshold_bp = tbp, estimate_ani_ci = ci, ani_confidence = conf\<rparr>"
    unfolding ab(5) by (simp add: s_def)
  then show ?thesis using that [OF r_def] ab(1-4) unfolding sel by simp
qed

section \<open>The constructors as functions of their arguments\<close>

lemma Frac_init_eq:
  "FracMinHashComparison_init m1 m2 ia cs tbp ci conf =
     (if \<not> py_any [py_and (num m1) (num m2), py_and (scaled m1) (scaled m2)]
      then Inl (TypeError ''Error: Both sketches must be 'num' or 'scaled'.'')
      else
        (case downsample (if ia then flatten m1 else m1) None
                (Some (case cs of None \<Rightarrow> int (max (scaled m1) (scaled m2)) | Some v \<Rightarrow> v)) of
           Inl e \<Rightarrow> Inl e
         | Inr a \<Rightarrow>
             (case downsample (if ia then flatten m2 else m2) None
                     (Some (case cs of None \<Rightarrow> int (max (scaled m1) (scaled m2)) | Some v \<Rightarrow> v)) of
                Inl e \<Rightarrow> Inl e
              | Inr b \<Rightarrow>
                  if \<not> is_compatible a b
                  then Inl (TypeError ''Error: Cannot compare incompatible sketches.'')
                  else Inr \<lparr>mh1 = m1, mh2 = m2, ignore_abundance = ia,
                            mh1_cmp = Some a, mh2_cmp = Some b,
                            ksize = Some (mh_ksize m1), moltype = Some (mh_moltype m1),
                            cmp_scaled = Some (case cs of None \<Rightarrow> int (max (scaled m1) (scaled m2)) | Some v \<Rightarrow> v),
                            threshold_bp = tbp, estimate_ani_ci = ci, ani_confidence = conf\<rparr>)))"
proof -
  define r where "r = (case cs of None \<Rightarrow> int (max (scaled m1) (scaled m2)) | Some v \<Rightarrow> v)"
  define a0 where "a0 = (if ia then flatten m1 else m1)"
  define b0 where "b0 = (if ia then flatten m2 else m2)"
  define s :: FracMinHashComparison where
    "s = \<lparr>mh1 = m1, mh2 = m2, ignore_abundance = ia, mh1_cmp = None, mh2_cmp = None,
          ksize = None, moltype = None, cmp_scaled = Some r,
          threshold_bp = tbp, estimate_ani_ci = ci, ani_confidence = conf\<rparr>"
  have sel: "mh1 s = m1" "mh2 s = m2" "ignore_abundance s = ia" by (simp_all add: s_def)
  have post: "FracMinHashComparison_post_init
       \<lparr>mh1 = m1, mh2 = m2, ignore_abundance = ia, mh1_cmp = None, mh2_cmp = None,
          ksize = None, moltype = None, cmp_scaled = cs,
          threshold_bp = tbp, estimate_ani_ci = ci, ani_confidence = conf\<rparr> =
       check_compatibility_and_downsample s None (Some r)"
    unfolding FracMinHashComparison_post_init_def s_def r_def by (cases cs) (simp_all add: Let_def)
  have chk: "check_compatibility_and_downsample s None (Some r) =
     (if \<not> py_any [py_and (num m1) (num m2), py_and (scaled m1) (scaled m2)]
      then Inl (TypeError ''Error: Both sketches must be 'num' or 'scaled'.'', s)
      else
        (case downsample a0 None (Some r) of
           Inl e \<Rightarrow> Inl (e, s\<lparr>mh1_cmp := Some a0, mh2_cmp := Some b0\<rparr>)
         | Inr a \<Rightarrow>
             (case downsample b0 None (Some r) of
                Inl e \<Rightarrow> Inl (e, s\<lparr>mh1_cmp := Some a, mh2_cmp := Some b0\<rparr>)
              | Inr b \<Rightarrow>
                  if \<not> is_compatible a b
                  then Inl (TypeError ''Error: Cannot compare incompatible sketches.'',
                            s\<lparr>mh1_cmp := Some a, mh2_cmp := Some b\<rparr>)
                  else Inr (s\<lparr>mh1_cmp := Some a, mh2_cmp := Some b,
                                  ksize := Some (mh_ksize m1),
                                  moltype := Some (mh_moltype m1)\<rparr>))))"
    using check_eq [of "Some r" None s] unfolding sel a0_def b0_def by simp
  have fin: "\<And>a b. s\<lparr>mh1_cmp := Some a, mh2_cmp := Some b, ksize := Some (mh_ksize m1),
                                  moltype := Some (mh_moltype m1)\<rparr> =
      \<lparr>mh1 = m1, mh2 = m2, ignore_abundance = ia,
                            mh1_cmp = Some a, mh2_cmp = Some b,
                            ksize = Some (mh_ksize m1), moltype = Some (mh_moltype m1),
                            cmp_scaled = Some r,
                            threshold_bp = tbp, estimate_ani_ci = ci, ani_confidence = conf\<rparr>"
    by (simp add: s_def)
  have "FracMinHashComparison_init m1 m2 ia cs tbp ci conf =
     (if \<not> py_any [py_and (num m1) (num m2), py_and (scaled m1) (scaled m2)]
      then Inl (TypeError ''Error: Both sketches must be 'num' or 'scaled'.'')
      else
        (case downsample a0 None (Some r) of
           Inl e \<Rightarrow> Inl e
         | Inr a \<Rightarrow>
             (case downsample b0 None (Some r) of
                Inl e \<Rightarrow> Inl e
              | Inr b \<Rightarrow>
                  if \<not> is_compatible a b
                  then Inl (TypeError ''Error: Cannot compare incompatible sketches.'')
                  else Inr \<lparr>mh1 = m1, mh2 = m2, ignore_abundance = ia,
                            mh1_cmp = Some a, mh2_cmp = Some b,
                            ksize = Some (mh_ksize m1), moltype = Some (mh_moltype m1),
                            cmp_scaled = Some r,
                            threshold_bp = tbp, estimate_ani_ci = ci, ani_confidence = conf\<rparr>)))"
    unfolding FracMinHashComparison_init_def post chk
    by (cases "downsample a0 None (Some r)"; cases "downsample b0 None (Some r)") (simp_all add: fin)
  then show ?thesis unfolding r_def a0_def b0_def .
qed

lemma Num_init_eq:
  "NumMinHashComparison_init m1 m2 ia cn =
     (if \<not> py_any [py_and (num m1) (num m2), py_and (scaled m1) (scaled m2)]
      then Inl (TypeError ''Error: Both sketches must be 'num' or 'scaled'.'')
      else
        (case downsample (if ia then flatten m1 else m1)
                (Some (case cn of None \<Rightarrow> int (min (num m1) (num m2)) | Some v \<Rightarrow> v)) None of
           Inl e \<Rightarrow> Inl e
         | Inr a \<Rightarrow>
             (case downsample (if ia then flatten m2 else m2)
                     (Some (case cn of None \<Rightarrow> int (min (num m1) (num m2)) | Some v \<Rightarrow> v)) None of
                Inl e \<Rightarrow> Inl e
              | Inr b \<Rightarrow>
                  if \<not> is_compatible a b
                  then Inl (TypeError ''Error: Cannot compare incompatible sketches.'')
                  else Inr \<lparr>mh1 = m1, mh2 = m2, ignore_abundance = ia,
                            mh1_cmp = Some a, mh2_cmp = Some b,
                            ksize = Some (mh_ksize m1), moltype = Some (mh_moltype m1),
                            cmp_num = Some (case cn of None \<Rightarrow> int (min (num m1) (num m2)) | Some v \<Rightarrow> v)\<rparr>)))"
proof -
  define k where "k = (case cn of None \<Rightarrow> int (min (num m1) (num m2)) | Some v \<Rightarrow> v)"
  define a0 where "a0 = (if ia then flatten m1 else m1)"
  define b0 where "b0 = (if ia then flatten m2 else m2)"
  define s :: NumMinHashComparison where
    "s = \<lparr>mh1 = m1, mh2 = m2, ignore_abundance = ia, mh1_cmp = None, mh2_cmp = None,
          ksize = None, moltype = None, cmp_num = Some k\<rparr>"
  have sel: "mh1 s = m1" "mh2 s = m2" "ignore_abundance s = ia" by (simp_all add: s_def)
  have post: "NumMinHashComparison_post_init
       \<lparr>mh1 = m1, mh2 = m2, ignore_abundance = ia, mh1_cmp = None, mh2_cmp = None,
          ksize = None, moltype = None, cmp_num = cn\<rparr> =
       check_compatibility_and_downsample s (Some k) None"
    unfolding NumMinHashComparison_post_init_def s_def k_def by (cases cn) (simp_all add: Let_def)
  have chk: "check_compatibility_and_downsample s (Some k) None =
     (if \<not> py_any [py_and (num m1) (num m2), py_and (scaled m1) (scaled m2)]
      then Inl (TypeError ''Error: Both sketches must be 'num' or 'scaled'.'', s)
      else
        (case downsample a0 (Some k) None of
           Inl e \<Rightarrow> Inl (e, s\<lparr>mh1_cmp := Some a0, mh2_cmp := Some b0\<rparr>)
         | Inr a \<Rightarrow>
             (case downsample b0 (Some k) None of
                Inl e \<Rightarrow> Inl (e, s\<lparr>mh1_cmp := Some a, mh2_cmp := Some b0\<rparr>)
              | Inr b \<Rightarrow>
                  if \<not> is_compatible a b
                  then Inl (TypeError ''Error: Cannot compare incompatible sketches.'',
                            s\<lparr>mh1_cmp := Some a, mh2_cmp := Some b\<rparr>)
                  else Inr (s\<lparr>mh1_cmp := Some a, mh2_cmp := Some b,
                                  ksize := Some (mh_ksize m1),
                                  moltype := Some (mh_moltype m1)\<rparr>))))"
    using check_eq [of None "Some k" s] unfolding sel a0_def b0_def by simp
  have fin: "\<And>a b. s\<lparr>mh1_cmp := Some a, mh2_cmp := Some b, ksize := Some (mh_ksize m1),
                                  moltype := Some (mh_moltype m1)\<rparr> =
      \<lparr>mh1 = m1, mh2 = m2, ignore_abundance = ia,
                            mh1_cmp = Some a, mh2_cmp = Some b,
                            ksize = Some (mh_ksize m1), moltype = Some (mh_moltype m1),
                            cmp_num = Some k\<rparr>"
    by (simp add: s_def)
  have "NumMinHashComparison_init m1 m2 ia cn =
     (if \<not> py_any [py_and (num m1) (num m2), py_and (scaled m1) (scaled m2)]
      then Inl (TypeError ''Error: Both sketches must be 'num' or 'scaled'.'')
      else
        (case downsample a0 (Some k) None of
           Inl e \<Rightarrow> Inl e
         | Inr a \<Rightarrow>
             (case downsample b0 (Some k) None of
                Inl e \<Rightarrow> Inl e
              | Inr b \<Rightarrow>
                  if \<not> is_compatible a b
                  then Inl (TypeError ''Error: Cannot compare incompatible sketches.'')
                  else Inr \<lparr>mh1 = m1, mh2 = m2, ignore_abundance = ia,
                            mh1_cmp = Some a, mh2_cmp = Some b,
                            ksize = Some (mh_ksize m1), moltype = Some (mh_moltype m1),
                            cmp_num = Some k\<rparr>)))"
    unfolding NumMinHashComparison_init_def post chk
    by (cases "downsample a0 (Some k) None"; cases "downsample b0 (Some k) None") (simp_all add: fin)
  then show ?thesis unfolding k_def a0_def b0_def .
qed

lemma ex_frac_init:
  "FracMinHashComparison_init ex_scaled10 ex_scaled20 False None 0 False (19 / 20) =
     Inr \<lparr>mh1 = ex_scaled10, mh2 = ex_scaled20, ignore_abundance = False,
          mh1_cmp = Some (ex_scaled10\<lparr>scaled := 20\<rparr>), mh2_cmp = Some ex_scaled20,
          ksize = Some 21, moltype = Some ''DNA'', cmp_scaled = Some 20,
          threshold_bp = 0, estimate_ani_ci = False, ani_confidence = 19 / 20\<rparr>"
  unfolding Frac_init_eq
  by (simp add: ex_scaled10_def ex_scaled20_def py_any_def py_and_def downsample_def is_compatible_def)

lemma ex_num_init:
  "NumMinHashComparison_init ex_num500 ex_num300 False None =
     Inr \<lparr>mh1 = ex_num500, mh2 = ex_num300, ignore_abundance = False,
          mh1_cmp = Some (ex_num500\<lparr>num := 300\<rparr>), mh2_cmp = Some ex_num300,
          ksize = Some 21, moltype = Some ''DNA'', cmp_num = Some 300\<rparr>"
  unfolding Num_init_eq
  by (simp add: ex_num500_def ex_num300_def py_any_def py_and_def downsample_def is_compatible_def)

lemma Num_post_init_None:
  fixes n :: "'a NumMinHashComparison_scheme"
  assumes h: "cmp_num n = None"
  shows "NumMinHashComparison_post_init n =
     check_compatibility_and_downsample
       (n\<lparr>cmp_num := Some (int (min (num (mh1 n)) (num (mh2 n))))\<rparr>)
       (Some (int (min (num (mh1 n)) (num (mh2 n))))) None"
proof -
  have sel: "cmp_num (n\<lparr>cmp_num := Some (int (min (num (mh1 n)) (num (mh2 n))))\<rparr>) =
    Some (int (min (num (mh1 n)) (num (mh2 n))))" by simp
  show ?thesis unfolding NumMinHashComparison_post_init_def Let_def h if_True sel if_P [OF refl] ..
qed


lemma Frac_post_init_None:
  fixes f :: "'a FracMinHashComparison_scheme"
  assumes h: "cmp_scaled f = None"
  shows "FracMinHashComparison_post_init f =
     check_compatibility_and_downsample
       (f\<lparr>cmp_scaled := Some (int (max (scaled (mh1 f)) (scaled (mh2 f))))\<rparr>)
       None (Some (int (max (scaled (mh1 f)) (scaled (mh2 f)))))"
proof -
  have sel: "cmp_scaled (f\<lparr>cmp_scaled := Some (int (max (scaled (mh1 f)) (scaled (mh2 f))))\<rparr>) =
    Some (int (max (scaled (mh1 f)) (scaled (mh2 f))))" by simp
  show ?thesis unfolding FracMinHashComparison_post_init_def Let_def h if_True sel if_P [OF refl] ..
qed

lemma Num_post_init_eq:
  fixes ns :: "'a NumMinHashComparison_scheme"
  shows "NumMinHashComparison_post_init ns =
     check_compatibility_and_downsample
       (case cmp_num ns of
          None \<Rightarrow> ns\<lparr>cmp_num := Some (int (min (num (mh1 ns)) (num (mh2 ns))))\<rparr>
        | Some k \<Rightarrow> ns)
       (Some (case cmp_num ns of
                None \<Rightarrow> int (min (num (mh1 ns)) (num (mh2 ns)))
              | Some k \<Rightarrow> k)) None"
proof (cases "cmp_num ns")
  case None
  show ?thesis unfolding Num_post_init_None [OF None] None by simp
next
  case (Some v)
  show ?thesis unfolding NumMinHashComparison_post_init_def Let_def by (simp add: Some)
qed

lemma Frac_post_init_eq:
  fixes fs :: "'a FracMinHashComparison_scheme"
  shows "FracMinHashComparison_post_init fs =
     check_compatibility_and_downsample
       (case cmp_scaled fs of
          None \<Rightarrow> fs\<lparr>cmp_scaled := Some (int (max (scaled (mh1 fs)) (scaled (mh2 fs))))\<rparr>
        | Some k \<Rightarrow> fs)
       None
       (Some (case cmp_scaled fs of
                None \<Rightarrow> int (max (scaled (mh1 fs)) (scaled (mh2 fs)))
              | Some k \<Rightarrow> k))"
proof (cases "cmp_scaled fs")
  case None
  show ?thesis unfolding Frac_post_init_None [OF None] None by simp
next
  case (Some v)
  show ?thesis unfolding FracMinHashComparison_post_init_def Let_def by (simp add: Some)
qed

lemma check_keeps_cmp_num:
  fixes s :: "'a NumMinHashComparison_scheme"
  shows "cmp_num (effect_state (check_compatibility_and_downsample s n r)) = cmp_num s"
proof -
  obtain x y k m where e:
    "effect_state (check_compatibility_and_downsample s n r) =
       s\<lparr>mh1_cmp := x, mh2_cmp := y, ksize := k, moltype := m\<rparr>"
    using check_frame [of s n r] by blast
  show ?thesis unfolding e by simp
qed

lemma check_keeps_cmp_scaled:
  fixes s :: "'a FracMinHashComparison_scheme"
  shows "cmp_scaled (effect_state (check_compatibility_and_downsample s n r)) = cmp_scaled s"
proof -
  obtain x y k m where e:
    "effect_state (check_compatibility_and_downsample s n r) =
       s\<lparr>mh1_cmp := x, mh2_cmp := y, ksize := k, moltype := m\<rparr>"
    using check_frame [of s n r] by blast
  show ?thesis unfolding e by simp
qed

section \<open>Facts about the examples\<close>

lemma mixed_kinds_not_any:
  "mixed_kinds m1 m2 \<Longrightarrow> \<not> py_any [py_and (num m1) (num m2), py_and (scaled m1) (scaled m2)]"
  by (auto simp add: mixed_kinds_def is_num_sketch_def is_scaled_sketch_def py_any_def py_and_def)

lemma ex_fields [simp]:
  "num ex_scaled10 = 0" "scaled ex_scaled10 = 10"
  "num ex_scaled20 = 0" "scaled ex_scaled20 = 20"
  "num ex_num500 = 500" "scaled ex_num500 = 0"
  "num ex_num300 = 300" "scaled ex_num300 = 0"
  by (simp_all add: ex_scaled10_def ex_scaled20_def ex_num500_def ex_num300_def)

lemma ex_mixed: "mixed_kinds ex_scaled10 ex_num500"
  by (simp add: mixed_kinds_def is_num_sketch_def is_scaled_sketch_def)

section \<open>Resolution selection\<close>

text \<open>
  Claim C1. When no resolution override is supplied at construction, the resolved
  comparison resolution is the coarser of the two originals': the fixed-size variant sets
  \<open>cmp_num = min(mh1.num, mh2.num)\<close> and the fixed-rate variant sets
  \<open>cmp_scaled = max(mh1.scaled, mh2.scaled)\<close>. The field holds that value when
  \<open>__post_init__\<close> is left, by return or by exception, and a constructed comparison holds
  sketches downsampled to it.
\<close>

theorem default_resolution_is_coarser:
  fixes n :: "'a NumMinHashComparison_scheme" and f :: "'b FracMinHashComparison_scheme"
  shows
    "(cmp_num n = None \<longrightarrow>
        cmp_num (effect_state (NumMinHashComparison_post_init n)) =
          Some (int (min (num (mh1 n)) (num (mh2 n))))) \<and>
     (NumMinHashComparison_init m1 m2 ia None = Inr c \<longrightarrow>
        cmp_num c = Some (int (min (num m1) (num m2))) \<and>
        (\<exists>a b. mh1_cmp c = Some a \<and> mh2_cmp c = Some b \<and>
               num a = min (num m1) (num m2) \<and> num b = min (num m1) (num m2))) \<and>
     (cmp_scaled f = None \<longrightarrow>
        cmp_scaled (effect_state (FracMinHashComparison_post_init f)) =
          Some (int (max (scaled (mh1 f)) (scaled (mh2 f))))) \<and>
     (FracMinHashComparison_init m1' m2' ia' None tbp ci conf = Inr d \<longrightarrow>
        cmp_scaled d = Some (int (max (scaled m1') (scaled m2'))) \<and>
        (\<exists>a b. mh1_cmp d = Some a \<and> mh2_cmp d = Some b \<and>
               scaled a = max (scaled m1') (scaled m2') \<and> scaled b = max (scaled m1') (scaled m2')))"
proof (rule conjI [OF _ conjI [OF _ conjI]]; rule impI)
  assume h: "cmp_num n = None"
  show "cmp_num (effect_state (NumMinHashComparison_post_init n)) =
          Some (int (min (num (mh1 n)) (num (mh2 n))))"
    unfolding Num_post_init_None [OF h] check_keeps_cmp_num by simp
next
  assume h: "cmp_scaled f = None"
  show "cmp_scaled (effect_state (FracMinHashComparison_post_init f)) =
          Some (int (max (scaled (mh1 f)) (scaled (mh2 f))))"
    unfolding Frac_post_init_None [OF h] check_keeps_cmp_scaled by simp
next
  assume h: "NumMinHashComparison_init m1 m2 ia None = Inr c"
  obtain a b k where ab:
    "k = (case (None::int option) of None \<Rightarrow> int (min (num m1) (num m2)) | Some v \<Rightarrow> v)"
    "py_any [py_and (num m1) (num m2), py_and (scaled m1) (scaled m2)]"
    "downsample (if ia then flatten m1 else m1) (Some k) None = Inr a"
    "downsample (if ia then flatten m2 else m2) (Some k) None = Inr b"
    "is_compatible a b"
    "c = \<lparr>mh1 = m1, mh2 = m2, ignore_abundance = ia, mh1_cmp = Some a, mh2_cmp = Some b,
          ksize = Some (mh_ksize m1), moltype = Some (mh_moltype m1), cmp_num = Some k\<rparr>"
    by (rule Num_init_Inr [OF h])
  have k: "k = int (min (num m1) (num m2))" using ab(1) by simp
  have 1: "cmp_num c = Some (int (min (num m1) (num m2)))" unfolding ab(6) k by simp
  have na: "num a = min (num m1) (num m2)" "num b = min (num m1) (num m2)"
    using downsample_num_Inr [OF ab(3)] downsample_num_Inr [OF ab(4)] unfolding k by simp_all
  have sel: "mh1_cmp c = Some a" "mh2_cmp c = Some b" unfolding ab(6) by simp_all
  from 1 sel na show "cmp_num c = Some (int (min (num m1) (num m2))) \<and>
        (\<exists>a b. mh1_cmp c = Some a \<and> mh2_cmp c = Some b \<and>
               num a = min (num m1) (num m2) \<and> num b = min (num m1) (num m2))" by blast
next
  assume h: "FracMinHashComparison_init m1' m2' ia' None tbp ci conf = Inr d"
  obtain a b r where ab:
    "r = (case (None::int option) of None \<Rightarrow> int (max (scaled m1') (scaled m2')) | Some v \<Rightarrow> v)"
    "py_any [py_and (num m1') (num m2'), py_and (scaled m1') (scaled m2')]"
    "downsample (if ia' then flatten m1' else m1') None (Some r) = Inr a"
    "downsample (if ia' then flatten m2' else m2') None (Some r) = Inr b"
    "is_compatible a b"
    "d = \<lparr>mh1 = m1', mh2 = m2', ignore_abundance = ia', mh1_cmp = Some a, mh2_cmp = Some b,
          ksize = Some (mh_ksize m1'), moltype = Some (mh_moltype m1'), cmp_scaled = Some r,
          threshold_bp = tbp, estimate_ani_ci = ci, ani_confidence = conf\<rparr>"
    by (rule Frac_init_Inr [OF h])
  have r: "r = int (max (scaled m1') (scaled m2'))" using ab(1) by simp
  have 1: "cmp_scaled d = Some (int (max (scaled m1') (scaled m2')))" unfolding ab(6) r by simp
  have na: "scaled a = max (scaled m1') (scaled m2')" "scaled b = max (scaled m1') (scaled m2')"
    using downsample_scaled_Inr [OF ab(3)] downsample_scaled_Inr [OF ab(4)] unfolding r by simp_all
  have sel: "mh1_cmp d = Some a" "mh2_cmp d = Some b" unfolding ab(6) by simp_all
  from 1 sel na show "cmp_scaled d = Some (int (max (scaled m1') (scaled m2'))) \<and>
        (\<exists>a b. mh1_cmp d = Some a \<and> mh2_cmp d = Some b \<and>
               scaled a = max (scaled m1') (scaled m2') \<and> scaled b = max (scaled m1') (scaled m2'))" by blast
qed

theorem default_resolution_is_coarser_witness:
  "cmp_num (effect_state (NumMinHashComparison_post_init
      \<lparr>mh1 = ex_num500, mh2 = ex_num300, ignore_abundance = False, mh1_cmp = None,
       mh2_cmp = None, ksize = None, moltype = None, cmp_num = None\<rparr>)) = Some 300 \<and>
   (\<exists>c. NumMinHashComparison_init ex_num500 ex_num300 False None = Inr c \<and> cmp_num c = Some 300) \<and>
   cmp_scaled (effect_state (FracMinHashComparison_post_init
      \<lparr>mh1 = ex_scaled10, mh2 = ex_scaled20, ignore_abundance = False, mh1_cmp = None,
       mh2_cmp = None, ksize = None, moltype = None, cmp_scaled = None, threshold_bp = 0,
       estimate_ani_ci = False, ani_confidence = 19 / 20\<rparr>)) = Some 20 \<and>
   (\<exists>d. FracMinHashComparison_init ex_scaled10 ex_scaled20 False None 0 False (19 / 20) = Inr d \<and>
        cmp_scaled d = Some 20)"
  using default_resolution_is_coarser
    [where n = "\<lparr>mh1 = ex_num500, mh2 = ex_num300, ignore_abundance = False, mh1_cmp = None,
                  mh2_cmp = None, ksize = None, moltype = None, cmp_num = None\<rparr>"
       and f = "\<lparr>mh1 = ex_scaled10, mh2 = ex_scaled20, ignore_abundance = False, mh1_cmp = None,
                  mh2_cmp = None, ksize = None, moltype = None, cmp_scaled = None, threshold_bp = 0,
                  estimate_ani_ci = False, ani_confidence = 19 / 20\<rparr>"
       and ?m1.0 = ex_num500 and ?m2.0 = ex_num300 and ia = False
       and c = "\<lparr>mh1 = ex_num500, mh2 = ex_num300, ignore_abundance = False,
          mh1_cmp = Some (ex_num500\<lparr>num := 300\<rparr>), mh2_cmp = Some ex_num300,
          ksize = Some 21, moltype = Some ''DNA'', cmp_num = Some 300\<rparr>"
       and m1' = ex_scaled10 and m2' = ex_scaled20 and ia' = False and tbp = 0 and ci = False
       and conf = "19 / 20"
       and d = "\<lparr>mh1 = ex_scaled10, mh2 = ex_scaled20, ignore_abundance = False,
          mh1_cmp = Some (ex_scaled10\<lparr>scaled := 20\<rparr>), mh2_cmp = Some ex_scaled20,
          ksize = Some 21, moltype = Some ''DNA'', cmp_scaled = Some 20,
          threshold_bp = 0, estimate_ani_ci = False, ani_confidence = 19 / 20\<rparr>"]
    ex_num_init ex_frac_init
  by simp

section \<open>Mixed kinds\<close>

text \<open>
  Claim C3. For every pair where one sketch is fixed-size and the other is fixed-rate,
  constructing either variant's comparison raises the \<open>TypeError\<close> of the kind check, at
  construction time: the constructor yields no object, whatever the other arguments.
\<close>

theorem mixed_kinds_rejected:
  assumes "mixed_kinds m1 m2"
  shows "NumMinHashComparison_init m1 m2 ia cn =
           Inl (TypeError ''Error: Both sketches must be 'num' or 'scaled'.'') \<and>
         FracMinHashComparison_init m1 m2 ia cs tbp ci conf =
           Inl (TypeError ''Error: Both sketches must be 'num' or 'scaled'.'')"
  using mixed_kinds_not_any [OF assms] unfolding Num_init_eq Frac_init_eq by simp

theorem mixed_kinds_rejected_witness:
  "mixed_kinds ex_scaled10 ex_num500 \<and>
   NumMinHashComparison_init ex_scaled10 ex_num500 False None =
     Inl (TypeError ''Error: Both sketches must be 'num' or 'scaled'.'') \<and>
   FracMinHashComparison_init ex_scaled10 ex_num500 False None 0 False (19 / 20) =
     Inl (TypeError ''Error: Both sketches must be 'num' or 'scaled'.'')"
  using mixed_kinds_rejected [OF ex_mixed, of False None None 0 False "19 / 20"] ex_mixed by simp

text \<open>
  Claim C10. The kind check runs before any flattening or downsampling: for a mixed pair
  the method raises the kind error for every requested resolution, also an invalid or a
  missing one, and leaves the object as it found it, so the normalized sketches are never
  assigned.
\<close>

theorem kind_check_precedes_normalization:
  fixes self :: "'a BaseMinHashComparison_scheme"
  assumes "mixed_kinds (mh1 self) (mh2 self)"
  shows "check_compatibility_and_downsample self n r =
           Inl (TypeError ''Error: Both sketches must be 'num' or 'scaled'.'', self) \<and>
         mh1_cmp (effect_state (check_compatibility_and_downsample self n r)) = mh1_cmp self \<and>
         mh2_cmp (effect_state (check_compatibility_and_downsample self n r)) = mh2_cmp self"
  using check_kind_fail [OF mixed_kinds_not_any [OF assms], of n r] by simp

theorem kind_check_precedes_normalization_witness:
  "mixed_kinds ex_scaled10 ex_num500 \<and>
   check_compatibility_and_downsample
     \<lparr>mh1 = ex_scaled10, mh2 = ex_num500, ignore_abundance = True, mh1_cmp = None,
      mh2_cmp = None, ksize = None, moltype = None\<rparr> None (Some (- 5)) =
     Inl (TypeError ''Error: Both sketches must be 'num' or 'scaled'.'',
          \<lparr>mh1 = ex_scaled10, mh2 = ex_num500, ignore_abundance = True, mh1_cmp = None,
           mh2_cmp = None, ksize = None, moltype = None\<rparr>)"
  using kind_check_precedes_normalization
    [where self = "\<lparr>mh1 = ex_scaled10, mh2 = ex_num500, ignore_abundance = True, mh1_cmp = None,
      mh2_cmp = None, ksize = None, moltype = None\<rparr>" and n = None and r = "Some (- 5)"]
    ex_mixed
  by simp

lemma ex_dhia_both:
  "downsample_and_handle_ignore_abundance
     \<lparr>mh1 = ex_scaled10, mh2 = ex_scaled20, ignore_abundance = False, mh1_cmp = None,
      mh2_cmp = None, ksize = None, moltype = None\<rparr> (Some 500) (Some 20) =
   Inr \<lparr>mh1 = ex_scaled10, mh2 = ex_scaled20, ignore_abundance = False,
        mh1_cmp = Some (ex_scaled10\<lparr>scaled := 20\<rparr>), mh2_cmp = Some ex_scaled20,
        ksize = None, moltype = None\<rparr>"
  unfolding dhia_unfold [OF refl refl refl]
  by (simp add: downsample_def ex_scaled10_def ex_scaled20_def)

lemma ex_frac_init_flat:
  "FracMinHashComparison_init ex_scaled10 ex_scaled20 True None 0 False (19 / 20) =
     Inr \<lparr>mh1 = ex_scaled10, mh2 = ex_scaled20, ignore_abundance = True,
          mh1_cmp = Some \<lparr>num = 0, scaled = 20, mh_ksize = 21, mh_moltype = ''DNA'',
                           track_abundance = False, hashes = [(3, 1), (7, 1), (9, 1)]\<rparr>,
          mh2_cmp = Some ex_scaled20,
          ksize = Some 21, moltype = Some ''DNA'', cmp_scaled = Some 20,
          threshold_bp = 0, estimate_ani_ci = False, ani_confidence = 19 / 20\<rparr>"
  unfolding Frac_init_eq
  by (simp add: ex_scaled10_def ex_scaled20_def py_any_def py_and_def downsample_def
        is_compatible_def flatten_def)

section \<open>The resolution parameters\<close>

text \<open>
  Claim C4, as stated: exactly one of \<open>cmp_num\<close> and \<open>cmp_scaled\<close> must be supplied to the
  normalization. The method accepts both: here \<open>cmp_num = 500\<close> and \<open>cmp_scaled = 20\<close> are
  supplied together and the method returns, having downsampled by rate.
\<close>

theorem both_resolutions_accepted:
  "Some (500::int) \<noteq> None \<and> Some (20::int) \<noteq> None \<and>
   downsample_and_handle_ignore_abundance
     \<lparr>mh1 = ex_scaled10, mh2 = ex_scaled20, ignore_abundance = False, mh1_cmp = None,
      mh2_cmp = None, ksize = None, moltype = None\<rparr> (Some 500) (Some 20) =
   Inr \<lparr>mh1 = ex_scaled10, mh2 = ex_scaled20, ignore_abundance = False,
        mh1_cmp = Some (ex_scaled10\<lparr>scaled := 20\<rparr>), mh2_cmp = Some ex_scaled20,
        ksize = None, moltype = None\<rparr>"
  using ex_dhia_both by simp

text \<open>
  Claim C4, amended: at least one of \<open>cmp_num\<close> and \<open>cmp_scaled\<close> must be supplied to the
  normalization. Supplying neither makes \<open>downsample_and_handle_ignore_abundance\<close> raise
  \<open>ValueError\<close> before any downsampling, after it has assigned the original (with
  \<open>ignore_abundance\<close>, flattened) sketches to \<open>mh1_cmp\<close> and \<open>mh2_cmp\<close>, so that a property
  which only reads them, such as \<open>jaccard\<close>, is computable on the object the failed call
  leaves. \<open>check_compatibility_and_downsample\<close> with neither parameter never returns: it
  raises the \<open>TypeError\<close> of the kind check for a pair that is neither both fixed-size nor
  both fixed-rate, and this \<open>ValueError\<close> otherwise. The normalization returns only if a
  parameter was supplied. Supplying both is no error of its own: \<open>cmp_scaled\<close> takes
  precedence, and the call is the call with \<open>cmp_scaled\<close> alone. Both \<open>__post_init__\<close>
  methods pass a resolution that is not \<open>None\<close>: the supplied one, or the default.
\<close>

theorem resolution_required:
  fixes self :: "'a BaseMinHashComparison_scheme"
    and ns :: "'b NumMinHashComparison_scheme"
    and fs :: "'c FracMinHashComparison_scheme"
  shows
    "downsample_and_handle_ignore_abundance self None None =
       Inl (ValueError ''Error: must pass in a comparison scaled or num value.'',
            self\<lparr>mh1_cmp := Some (if ignore_abundance self then flatten (mh1 self) else mh1 self),
                 mh2_cmp := Some (if ignore_abundance self then flatten (mh2 self) else mh2 self)\<rparr>) \<and>
     jaccard E (effect_state (downsample_and_handle_ignore_abundance self None None)) =
       Inr (mh_jaccard E (if ignore_abundance self then flatten (mh1 self) else mh1 self)
                         (if ignore_abundance self then flatten (mh2 self) else mh2 self)) \<and>
     check_compatibility_and_downsample self None None =
       (if \<not> py_any [py_and (num (mh1 self)) (num (mh2 self)),
                      py_and (scaled (mh1 self)) (scaled (mh2 self))]
        then Inl (TypeError ''Error: Both sketches must be 'num' or 'scaled'.'', self)
        else Inl (ValueError ''Error: must pass in a comparison scaled or num value.'',
            self\<lparr>mh1_cmp := Some (if ignore_abundance self then flatten (mh1 self) else mh1 self),
                 mh2_cmp := Some (if ignore_abundance self then flatten (mh2 self) else mh2 self)\<rparr>)) \<and>
     (downsample_and_handle_ignore_abundance self n r = Inr s' \<longrightarrow> n \<noteq> None \<or> r \<noteq> None) \<and>
     downsample_and_handle_ignore_abundance self n (Some v) =
       downsample_and_handle_ignore_abundance self None (Some v) \<and>
     NumMinHashComparison_post_init ns =
       check_compatibility_and_downsample
         (case cmp_num ns of
            None \<Rightarrow> ns\<lparr>cmp_num := Some (int (min (num (mh1 ns)) (num (mh2 ns))))\<rparr>
          | Some k \<Rightarrow> ns)
         (Some (case cmp_num ns of
                  None \<Rightarrow> int (min (num (mh1 ns)) (num (mh2 ns)))
                | Some k \<Rightarrow> k)) None \<and>
     FracMinHashComparison_post_init fs =
       check_compatibility_and_downsample
         (case cmp_scaled fs of
            None \<Rightarrow> fs\<lparr>cmp_scaled := Some (int (max (scaled (mh1 fs)) (scaled (mh2 fs))))\<rparr>
          | Some k \<Rightarrow> fs)
         None
         (Some (case cmp_scaled fs of
                  None \<Rightarrow> int (max (scaled (mh1 fs)) (scaled (mh2 fs)))
                | Some k \<Rightarrow> k))"
proof -
  define a0 where "a0 = (if ignore_abundance self then flatten (mh1 self) else mh1 self)"
  define b0 where "b0 = (if ignore_abundance self then flatten (mh2 self) else mh2 self)"
  define s0 where "s0 = self\<lparr>mh1_cmp := Some a0, mh2_cmp := Some b0\<rparr>"
  have none: "downsample_and_handle_ignore_abundance self None None =
       Inl (ValueError ''Error: must pass in a comparison scaled or num value.'', s0)"
    unfolding dhia_unfold [OF a0_def b0_def s0_def] by simp
  have sel: "mh1_cmp s0 = Some a0" "mh2_cmp s0 = Some b0" unfolding s0_def by simp_all
  have jac: "jaccard E (effect_state (downsample_and_handle_ignore_abundance self None None)) =
       Inr (mh_jaccard E a0 b0)"
    unfolding none effect_state_simps by (simp add: jaccard_def cmp_pair_def sel)
  have chk: "check_compatibility_and_downsample self None None =
       (if \<not> py_any [py_and (num (mh1 self)) (num (mh2 self)),
                      py_and (scaled (mh1 self)) (scaled (mh2 self))]
        then Inl (TypeError ''Error: Both sketches must be 'num' or 'scaled'.'', self)
        else Inl (ValueError ''Error: must pass in a comparison scaled or num value.'', s0))"
  proof (cases "py_any [py_and (num (mh1 self)) (num (mh2 self)), py_and (scaled (mh1 self)) (scaled (mh2 self))]")
    case True
    show ?thesis unfolding check_kind_ok [OF True] none using True by simp
  next
    case False
    show ?thesis unfolding check_kind_fail [OF False] using False by simp
  qed
  have one: "downsample_and_handle_ignore_abundance self n r = Inr s' \<longrightarrow> n \<noteq> None \<or> r \<noteq> None"
  proof (intro impI, rule ccontr)
    assume a: "downsample_and_handle_ignore_abundance self n r = Inr s'" and "\<not> (n \<noteq> None \<or> r \<noteq> None)"
    then have "n = None" "r = None" by simp_all
    with a none show False by simp
  qed
  have prec: "downsample_and_handle_ignore_abundance self n (Some v) =
       downsample_and_handle_ignore_abundance self None (Some v)"
    unfolding dhia_unfold [OF refl refl refl] by simp
  note np = Num_post_init_eq [of ns]
  note fp = Frac_post_init_eq [of fs]
  from none jac chk one prec np fp show ?thesis unfolding s0_def a0_def b0_def by blast
qed

lemma ex_dhia_none:
  "downsample_and_handle_ignore_abundance
     \<lparr>mh1 = ex_scaled10, mh2 = ex_scaled20, ignore_abundance = False, mh1_cmp = None,
      mh2_cmp = None, ksize = None, moltype = None\<rparr> None None =
   Inl (ValueError ''Error: must pass in a comparison scaled or num value.'',
        \<lparr>mh1 = ex_scaled10, mh2 = ex_scaled20, ignore_abundance = False,
         mh1_cmp = Some ex_scaled10, mh2_cmp = Some ex_scaled20,
         ksize = None, moltype = None\<rparr>)"
  unfolding dhia_unfold [OF refl refl refl] by simp

theorem resolution_required_witness:
  "downsample_and_handle_ignore_abundance
     \<lparr>mh1 = ex_scaled10, mh2 = ex_scaled20, ignore_abundance = False, mh1_cmp = None,
      mh2_cmp = None, ksize = None, moltype = None\<rparr> None None =
   Inl (ValueError ''Error: must pass in a comparison scaled or num value.'',
        \<lparr>mh1 = ex_scaled10, mh2 = ex_scaled20, ignore_abundance = False,
         mh1_cmp = Some ex_scaled10, mh2_cmp = Some ex_scaled20,
         ksize = None, moltype = None\<rparr>) \<and>
   jaccard ex_engine
     \<lparr>mh1 = ex_scaled10, mh2 = ex_scaled20, ignore_abundance = False,
      mh1_cmp = Some ex_scaled10, mh2_cmp = Some ex_scaled20,
      ksize = None, moltype = None\<rparr> = Inr (1 / 2) \<and>
   check_compatibility_and_downsample
     \<lparr>mh1 = ex_scaled10, mh2 = ex_scaled20, ignore_abundance = False, mh1_cmp = None,
      mh2_cmp = None, ksize = None, moltype = None\<rparr> None None =
   Inl (ValueError ''Error: must pass in a comparison scaled or num value.'',
        \<lparr>mh1 = ex_scaled10, mh2 = ex_scaled20, ignore_abundance = False,
         mh1_cmp = Some ex_scaled10, mh2_cmp = Some ex_scaled20,
         ksize = None, moltype = None\<rparr>) \<and>
   Some (20::int) \<noteq> None \<and>
   downsample_and_handle_ignore_abundance
     \<lparr>mh1 = ex_scaled10, mh2 = ex_scaled20, ignore_abundance = False, mh1_cmp = None,
      mh2_cmp = None, ksize = None, moltype = None\<rparr> (Some 500) (Some 20) =
   downsample_and_handle_ignore_abundance
     \<lparr>mh1 = ex_scaled10, mh2 = ex_scaled20, ignore_abundance = False, mh1_cmp = None,
      mh2_cmp = None, ksize = None, moltype = None\<rparr> None (Some 20)"
proof -
  let ?s = "\<lparr>mh1 = ex_scaled10, mh2 = ex_scaled20, ignore_abundance = False, mh1_cmp = None,
      mh2_cmp = None, ksize = None, moltype = None\<rparr>"
  have j: "ex_jaccard ex_scaled10 ex_scaled20 = 1 / 2"
    by (simp add: ex_jaccard_def ex_common_def ex_scaled10_def ex_scaled20_def)
  have k: "py_any [py_and (num ex_scaled10) (num ex_scaled20),
                   py_and (scaled ex_scaled10) (scaled ex_scaled20)]"
    by (simp add: py_any_def py_and_def)
  note t = resolution_required
    [where self = ?s and n = "Some 500" and r = "Some 20" and v = 20 and E = ex_engine
      and ns = "\<lparr>mh1 = ex_num500, mh2 = ex_num300, ignore_abundance = False, mh1_cmp = None,
        mh2_cmp = None, ksize = None, moltype = None, cmp_num = None\<rparr>"
      and fs = "\<lparr>mh1 = ex_scaled10, mh2 = ex_scaled20, ignore_abundance = False, mh1_cmp = None,
        mh2_cmp = None, ksize = None, moltype = None, cmp_scaled = None, threshold_bp = 0,
        estimate_ani_ci = False, ani_confidence = 19 / 20\<rparr>"
      and s' = "\<lparr>mh1 = ex_scaled10, mh2 = ex_scaled20, ignore_abundance = False,
        mh1_cmp = Some (ex_scaled10\<lparr>scaled := 20\<rparr>), mh2_cmp = Some ex_scaled20,
        ksize = None, moltype = None\<rparr>"]
  from t ex_dhia_both ex_dhia_none k show ?thesis
    by (simp add: ex_engine_def j)
qed

section \<open>Ignoring abundance\<close>

text \<open>
  Claim C5. In every successfully constructed comparison with \<open>ignore_abundance\<close> true,
  both normalized sketches are downsampled flattened copies and neither tracks abundance,
  whatever the originals did; with \<open>ignore_abundance\<close> false the originals themselves are
  downsampled, and keep their abundance mode.
\<close>

theorem ignore_abundance_flattens:
  "(FracMinHashComparison_init m1 m2 ia cs tbp ci conf = Inr c \<longrightarrow>
      (\<exists>a b r. mh1_cmp c = Some a \<and> mh2_cmp c = Some b \<and>
         downsample (if ia then flatten m1 else m1) None (Some r) = Inr a \<and>
         downsample (if ia then flatten m2 else m2) None (Some r) = Inr b \<and>
         (if ia then \<not> track_abundance a \<and> \<not> track_abundance b
          else track_abundance a = track_abundance m1 \<and> track_abundance b = track_abundance m2))) \<and>
   (NumMinHashComparison_init m1' m2' ia' cn = Inr d \<longrightarrow>
      (\<exists>a b k. mh1_cmp d = Some a \<and> mh2_cmp d = Some b \<and>
         downsample (if ia' then flatten m1' else m1') (Some k) None = Inr a \<and>
         downsample (if ia' then flatten m2' else m2') (Some k) None = Inr b \<and>
         (if ia' then \<not> track_abundance a \<and> \<not> track_abundance b
          else track_abundance a = track_abundance m1' \<and> track_abundance b = track_abundance m2')))"
proof (rule conjI; rule impI)
  assume h: "FracMinHashComparison_init m1 m2 ia cs tbp ci conf = Inr c"
  obtain a b r where ab:
    "r = (case cs of None \<Rightarrow> int (max (scaled m1) (scaled m2)) | Some v \<Rightarrow> v)"
    "py_any [py_and (num m1) (num m2), py_and (scaled m1) (scaled m2)]"
    "downsample (if ia then flatten m1 else m1) None (Some r) = Inr a"
    "downsample (if ia then flatten m2 else m2) None (Some r) = Inr b"
    "is_compatible a b"
    "c = \<lparr>mh1 = m1, mh2 = m2, ignore_abundance = ia, mh1_cmp = Some a, mh2_cmp = Some b,
          ksize = Some (mh_ksize m1), moltype = Some (mh_moltype m1), cmp_scaled = Some r,
          threshold_bp = tbp, estimate_ani_ci = ci, ani_confidence = conf\<rparr>"
    by (rule Frac_init_Inr [OF h])
  have sel: "mh1_cmp c = Some a" "mh2_cmp c = Some b" unfolding ab(6) by simp_all
  have tr: "if ia then \<not> track_abundance a \<and> \<not> track_abundance b
          else track_abundance a = track_abundance m1 \<and> track_abundance b = track_abundance m2"
    using downsample_keeps [OF ab(3)] downsample_keeps [OF ab(4)] by (cases ia) simp_all
  from sel ab(3,4) tr show "\<exists>a b r. mh1_cmp c = Some a \<and> mh2_cmp c = Some b \<and>
         downsample (if ia then flatten m1 else m1) None (Some r) = Inr a \<and>
         downsample (if ia then flatten m2 else m2) None (Some r) = Inr b \<and>
         (if ia then \<not> track_abundance a \<and> \<not> track_abundance b
          else track_abundance a = track_abundance m1 \<and> track_abundance b = track_abundance m2)"
    by blast
next
  assume h: "NumMinHashComparison_init m1' m2' ia' cn = Inr d"
  obtain a b k where ab:
    "k = (case cn of None \<Rightarrow> int (min (num m1') (num m2')) | Some v \<Rightarrow> v)"
    "py_any [py_and (num m1') (num m2'), py_and (scaled m1') (scaled m2')]"
    "downsample (if ia' then flatten m1' else m1') (Some k) None = Inr a"
    "downsample (if ia' then flatten m2' else m2') (Some k) None = Inr b"
    "is_compatible a b"
    "d = \<lparr>mh1 = m1', mh2 = m2', ignore_abundance = ia', mh1_cmp = Some a, mh2_cmp = Some b,
          ksize = Some (mh_ksize m1'), moltype = Some (mh_moltype m1'), cmp_num = Some k\<rparr>"
    by (rule Num_init_Inr [OF h])
  have sel: "mh1_cmp d = Some a" "mh2_cmp d = Some b" unfolding ab(6) by simp_all
  have tr: "if ia' then \<not> track_abundance a \<and> \<not> track_abundance b
          else track_abundance a = track_abundance m1' \<and> track_abundance b = track_abundance m2'"
    using downsample_keeps [OF ab(3)] downsample_keeps [OF ab(4)] by (cases ia') simp_all
  from sel ab(3,4) tr show "\<exists>a b k. mh1_cmp d = Some a \<and> mh2_cmp d = Some b \<and>
         downsample (if ia' then flatten m1' else m1') (Some k) None = Inr a \<and>
         downsample (if ia' then flatten m2' else m2') (Some k) None = Inr b \<and>
         (if ia' then \<not> track_abundance a \<and> \<not> track_abundance b
          else track_abundance a = track_abundance m1' \<and> track_abundance b = track_abundance m2')"
    by blast
qed


theorem ignore_abundance_flattens_witness:
  "(\<exists>c a b. FracMinHashComparison_init ex_scaled10 ex_scaled20 True None 0 False (19 / 20) = Inr c \<and>
      track_abundance ex_scaled10 \<and> mh1_cmp c = Some a \<and> mh2_cmp c = Some b \<and>
      \<not> track_abundance a \<and> \<not> track_abundance b) \<and>
   (\<exists>d a b. NumMinHashComparison_init ex_num500 ex_num300 False None = Inr d \<and>
      mh1_cmp d = Some a \<and> mh2_cmp d = Some b \<and>
      track_abundance a = track_abundance ex_num500 \<and> track_abundance b = track_abundance ex_num300)"
proof -
  note t = ignore_abundance_flattens
    [of ex_scaled10 ex_scaled20 True None 0 False "19 / 20"
        "\<lparr>mh1 = ex_scaled10, mh2 = ex_scaled20, ignore_abundance = True,
          mh1_cmp = Some \<lparr>num = 0, scaled = 20, mh_ksize = 21, mh_moltype = ''DNA'',
                           track_abundance = False, hashes = [(3, 1), (7, 1), (9, 1)]\<rparr>,
          mh2_cmp = Some ex_scaled20,
          ksize = Some 21, moltype = Some ''DNA'', cmp_scaled = Some 20,
          threshold_bp = 0, estimate_ani_ci = False, ani_confidence = 19 / 20\<rparr>"
        ex_num500 ex_num300 False None
        "\<lparr>mh1 = ex_num500, mh2 = ex_num300, ignore_abundance = False,
          mh1_cmp = Some (ex_num500\<lparr>num := 300\<rparr>), mh2_cmp = Some ex_num300,
          ksize = Some 21, moltype = Some ''DNA'', cmp_num = Some 300\<rparr>"]
  have tr: "track_abundance ex_scaled10" by (simp add: ex_scaled10_def)
  from t ex_frac_init_flat ex_num_init tr show ?thesis by auto
qed

section \<open>The compatibility check\<close>

text \<open>
  Claim C8. The compatibility check is applied to the two sketches that the downsampling
  produced, after it: when they disagree the method raises the \<open>TypeError\<close> of incompatible
  sketches and leaves \<open>ksize\<close> and \<open>moltype\<close> unassigned; when they agree it returns with
  \<open>ksize\<close> and \<open>moltype\<close> copied from sketch 1.
\<close>

theorem compatibility_checked_after_downsampling:
  fixes self :: "'a BaseMinHashComparison_scheme"
  assumes "py_any [py_and (num (mh1 self)) (num (mh2 self)),
                   py_and (scaled (mh1 self)) (scaled (mh2 self))]"
      and "downsample_and_handle_ignore_abundance self n r = Inr s"
  shows "\<exists>a b. mh1_cmp s = Some a \<and> mh2_cmp s = Some b \<and>
           check_compatibility_and_downsample self n r =
             (if is_compatible a b
              then Inr (s\<lparr>ksize := Some (mh_ksize (mh1 self)),
                          moltype := Some (mh_moltype (mh1 self))\<rparr>)
              else Inl (TypeError ''Error: Cannot compare incompatible sketches.'', s))"
proof -
  obtain a b where ab:
    "downsample (if ignore_abundance self then flatten (mh1 self) else mh1 self) (if r = None then n else None) r = Inr a"
    "downsample (if ignore_abundance self then flatten (mh2 self) else mh2 self) (if r = None then n else None) r = Inr b"
    "s = self\<lparr>mh1_cmp := Some a, mh2_cmp := Some b\<rparr>"
    "check_compatibility_and_downsample self n r =
       (if \<not> is_compatible a b
        then Inl (TypeError ''Error: Cannot compare incompatible sketches.'', s)
        else Inr (self\<lparr>mh1_cmp := Some a, mh2_cmp := Some b,
                       ksize := Some (mh_ksize (mh1 self)), moltype := Some (mh_moltype (mh1 self))\<rparr>))"
    by (rule check_after_downsample [OF assms])
  have sel: "mh1_cmp s = Some a" "mh2_cmp s = Some b" unfolding ab(3) by simp_all
  have upd: "s\<lparr>ksize := Some (mh_ksize (mh1 self)), moltype := Some (mh_moltype (mh1 self))\<rparr> =
      self\<lparr>mh1_cmp := Some a, mh2_cmp := Some b,
                       ksize := Some (mh_ksize (mh1 self)), moltype := Some (mh_moltype (mh1 self))\<rparr>"
    unfolding ab(3) by simp
  have "check_compatibility_and_downsample self n r =
             (if is_compatible a b
              then Inr (s\<lparr>ksize := Some (mh_ksize (mh1 self)),
                          moltype := Some (mh_moltype (mh1 self))\<rparr>)
              else Inl (TypeError ''Error: Cannot compare incompatible sketches.'', s))"
    unfolding ab(4) upd by simp
  with sel show ?thesis by blast
qed

lemma ex_dhia_scaled:
  "downsample_and_handle_ignore_abundance
     \<lparr>mh1 = ex_scaled10, mh2 = ex_scaled20, ignore_abundance = False, mh1_cmp = None,
      mh2_cmp = None, ksize = None, moltype = None\<rparr> None (Some 20) =
   Inr \<lparr>mh1 = ex_scaled10, mh2 = ex_scaled20, ignore_abundance = False,
        mh1_cmp = Some (ex_scaled10\<lparr>scaled := 20\<rparr>), mh2_cmp = Some ex_scaled20,
        ksize = None, moltype = None\<rparr>"
  unfolding dhia_unfold [OF refl refl refl]
  by (simp add: downsample_def ex_scaled10_def ex_scaled20_def)

theorem compatibility_checked_after_downsampling_witness:
  "\<not> is_compatible ex_scaled10 ex_scaled20 \<and>
   check_compatibility_and_downsample
     \<lparr>mh1 = ex_scaled10, mh2 = ex_scaled20, ignore_abundance = False, mh1_cmp = None,
      mh2_cmp = None, ksize = None, moltype = None\<rparr> None (Some 20) =
   Inr \<lparr>mh1 = ex_scaled10, mh2 = ex_scaled20, ignore_abundance = False,
        mh1_cmp = Some (ex_scaled10\<lparr>scaled := 20\<rparr>), mh2_cmp = Some ex_scaled20,
        ksize = Some 21, moltype = Some ''DNA''\<rparr>"
proof -
  have k: "py_any [py_and (num (mh1 \<lparr>mh1 = ex_scaled10, mh2 = ex_scaled20, ignore_abundance = False, mh1_cmp = None,
      mh2_cmp = None, ksize = None, moltype = None\<rparr>)) (num (mh2 \<lparr>mh1 = ex_scaled10, mh2 = ex_scaled20, ignore_abundance = False, mh1_cmp = None,
      mh2_cmp = None, ksize = None, moltype = None\<rparr>)),
     py_and (scaled (mh1 \<lparr>mh1 = ex_scaled10, mh2 = ex_scaled20, ignore_abundance = False, mh1_cmp = None,
      mh2_cmp = None, ksize = None, moltype = None\<rparr>)) (scaled (mh2 \<lparr>mh1 = ex_scaled10, mh2 = ex_scaled20, ignore_abundance = False, mh1_cmp = None,
      mh2_cmp = None, ksize = None, moltype = None\<rparr>))]"
    by (simp add: py_any_def py_and_def)
  have c: "is_compatible (ex_scaled10\<lparr>scaled := 20\<rparr>) ex_scaled20"
    by (simp add: is_compatible_def ex_scaled10_def ex_scaled20_def)
  have n: "\<not> is_compatible ex_scaled10 ex_scaled20"
    by (simp add: is_compatible_def)
  from compatibility_checked_after_downsampling [OF k ex_dhia_scaled] c n
  show ?thesis by (simp add: ex_scaled10_def)
qed

section \<open>The derived properties of an object that holds its normalized sketches\<close>

lemma cmp_pair_Some:
  fixes c :: "'a BaseMinHashComparison_scheme"
  assumes "mh1_cmp c = Some a" "mh2_cmp c = Some b"
  shows "cmp_pair c = Inr (a, b)" "cmp_pair_rev c = Inr (b, a)"
  using assms by (simp_all add: cmp_pair_def cmp_pair_rev_def)

lemma base_props:
  fixes c :: "'a BaseMinHashComparison_scheme"
  assumes "mh1_cmp c = Some a" "mh2_cmp c = Some b"
  shows "intersect_mh c = Inr (intersection (flatten a) (flatten b))"
    and "jaccard E c = Inr (mh_jaccard E a b)"
    and "jaccard_ani E c = Inr (mh_jaccard_ani E a b)"
    and "angular_similarity E c = mh_angular_similarity E a b"
    and "cosine_similarity E c = mh_angular_similarity E a b"
  by (simp_all add: intersect_mh_def jaccard_def jaccard_ani_def angular_similarity_def
        cosine_similarity_def cmp_pair_Some [OF assms])

lemma frac_props:
  fixes c :: "'a FracMinHashComparison_scheme"
  assumes "mh1_cmp c = Some a" "mh2_cmp c = Some b"
  shows "mh1_containment E c = Inr (mh_contained_by E a b)"
    and "mh2_containment E c = Inr (mh_contained_by E b a)"
    and "mh1_containment_ani E c =
           Inr (mh_containment_ani E a b (ani_confidence c) (estimate_ani_ci c))"
    and "mh2_containment_ani E c =
           Inr (mh_containment_ani E b a (ani_confidence c) (estimate_ani_ci c))"
    and "max_containment E c = Inr (mh_max_containment E a b)"
    and "max_containment_ani E c =
           Inr (mh_max_containment_ani E a b (ani_confidence c) (estimate_ani_ci c))"
  by (simp_all add: mh1_containment_def mh2_containment_def mh1_containment_ani_def
        mh2_containment_ani_def max_containment_def max_containment_ani_def
        cmp_pair_Some [OF assms])

lemma avg_props:
  fixes c :: "'a FracMinHashComparison_scheme"
  assumes "mh1_cmp c = Some a" "mh2_cmp c = Some b"
  shows "avg_containment E c = Inr (np_mean [mh_contained_by E a b, mh_contained_by E b a])"
    and "avg_containment_ani E c =
           Inr (np_mean [ani (mh_containment_ani E a b (ani_confidence c) (estimate_ani_ci c)),
                         ani (mh_containment_ani E b a (ani_confidence c) (estimate_ani_ci c))])"
  by (simp_all add: avg_containment_def avg_containment_ani_def frac_props [OF assms])

lemma bp_props:
  fixes c :: "'a FracMinHashComparison_scheme"
  assumes "mh1_cmp c = Some a" "mh2_cmp c = Some b" "cmp_scaled c = Some r"
  shows "intersect_bp c = Inr (int (length (hashes (intersection (flatten a) (flatten b)))) * r)"
    and "pass_threshold c =
           Inr (threshold_bp c \<le> int (length (hashes (intersection (flatten a) (flatten b)))) * r)"
  by (simp_all add: pass_threshold_def intersect_bp_def base_props(1) [OF assms(1,2)] assms(3))

lemma intersection_size:
  "length (hashes (intersection (flatten a) (flatten b))) \<le> length (hashes a)"
proof -
  have "length (hashes (intersection (flatten a) (flatten b))) \<le> length (hashes (flatten a))"
    by (simp add: intersection_def)
  then show ?thesis by (simp add: flatten_def)
qed

lemma Frac_init_fields:
  assumes h: "FracMinHashComparison_init m1 m2 ia cs tbp ci conf = Inr c"
  obtains a b r where
    "mh1_cmp c = Some a" "mh2_cmp c = Some b" "cmp_scaled c = Some r"
    "threshold_bp c = tbp" "estimate_ani_ci c = ci" "ani_confidence c = conf"
    "0 \<le> r" "ia \<longrightarrow> \<not> track_abundance a"
proof -
  obtain a b r where ab:
    "r = (case cs of None \<Rightarrow> int (max (scaled m1) (scaled m2)) | Some v \<Rightarrow> v)"
    "py_any [py_and (num m1) (num m2), py_and (scaled m1) (scaled m2)]"
    "downsample (if ia then flatten m1 else m1) None (Some r) = Inr a"
    "downsample (if ia then flatten m2 else m2) None (Some r) = Inr b"
    "is_compatible a b"
    "c = \<lparr>mh1 = m1, mh2 = m2, ignore_abundance = ia, mh1_cmp = Some a, mh2_cmp = Some b,
          ksize = Some (mh_ksize m1), moltype = Some (mh_moltype m1), cmp_scaled = Some r,
          threshold_bp = tbp, estimate_ani_ci = ci, ani_confidence = conf\<rparr>"
    by (rule Frac_init_Inr [OF h])
  have sel: "mh1_cmp c = Some a" "mh2_cmp c = Some b" "cmp_scaled c = Some r"
    "threshold_bp c = tbp" "estimate_ani_ci c = ci" "ani_confidence c = conf"
    unfolding ab(6) by simp_all
  have r: "0 \<le> r" using downsample_scaled_Inr [OF ab(3)] by simp
  have tr: "ia \<longrightarrow> \<not> track_abundance a" using downsample_keeps [OF ab(3)] by simp
  show ?thesis using that [OF sel r tr] by simp
qed

lemma Num_init_fields:
  assumes h: "NumMinHashComparison_init m1 m2 ia cn = Inr c"
  obtains a b where
    "mh1_cmp c = Some a" "mh2_cmp c = Some b" "ia \<longrightarrow> \<not> track_abundance a"
proof -
  obtain a b k where ab:
    "k = (case cn of None \<Rightarrow> int (min (num m1) (num m2)) | Some v \<Rightarrow> v)"
    "py_any [py_and (num m1) (num m2), py_and (scaled m1) (scaled m2)]"
    "downsample (if ia then flatten m1 else m1) (Some k) None = Inr a"
    "downsample (if ia then flatten m2 else m2) (Some k) None = Inr b"
    "is_compatible a b"
    "c = \<lparr>mh1 = m1, mh2 = m2, ignore_abundance = ia, mh1_cmp = Some a, mh2_cmp = Some b,
          ksize = Some (mh_ksize m1), moltype = Some (mh_moltype m1), cmp_num = Some k\<rparr>"
    by (rule Num_init_Inr [OF h])
  have sel: "mh1_cmp c = Some a" "mh2_cmp c = Some b" unfolding ab(6) by simp_all
  have tr: "ia \<longrightarrow> \<not> track_abundance a" using downsample_keeps [OF ab(3)] by simp
  show ?thesis using that [OF sel tr] by simp
qed

section \<open>Angular similarity\<close>

text \<open>
  Claim C6. For every comparison constructed with \<open>ignore_abundance\<close> true, reading
  \<open>angular_similarity\<close> or \<open>cosine_similarity\<close> raises the \<open>TypeError\<close> of the engine, and
  every other derived property of the same object returns a value: intersection, Jaccard
  index and Jaccard ANI for both variants, and for the fixed-rate variant also the
  base-pair intersection, the threshold predicate and all containment statistics.
\<close>

theorem angular_similarity_needs_abundance:
  "(FracMinHashComparison_init m1 m2 True cs tbp ci conf = Inr c \<longrightarrow>
      angular_similarity E c = Inl (TypeError ''angular_similarity: abundance is not tracked'') \<and>
      cosine_similarity E c = Inl (TypeError ''angular_similarity: abundance is not tracked'') \<and>
      (\<exists>v. intersect_mh c = Inr v) \<and> (\<exists>v. jaccard E c = Inr v) \<and>
      (\<exists>v. jaccard_ani E c = Inr v) \<and>
      (\<exists>v. intersect_bp c = Inr v) \<and> (\<exists>v. pass_threshold c = Inr v) \<and>
      (\<exists>v. mh1_containment E c = Inr v) \<and> (\<exists>v. mh1_containment_ani E c = Inr v) \<and>
      (\<exists>v. mh2_containment E c = Inr v) \<and> (\<exists>v. mh2_containment_ani E c = Inr v) \<and>
      (\<exists>v. max_containment E c = Inr v) \<and> (\<exists>v. max_containment_ani E c = Inr v) \<and>
      (\<exists>v. avg_containment E c = Inr v) \<and> (\<exists>v. avg_containment_ani E c = Inr v)) \<and>
   (NumMinHashComparison_init m1' m2' True cn = Inr d \<longrightarrow>
      angular_similarity E d = Inl (TypeError ''angular_similarity: abundance is not tracked'') \<and>
      cosine_similarity E d = Inl (TypeError ''angular_similarity: abundance is not tracked'') \<and>
      (\<exists>v. intersect_mh d = Inr v) \<and> (\<exists>v. jaccard E d = Inr v) \<and>
      (\<exists>v. jaccard_ani E d = Inr v))"
proof (rule conjI; rule impI)
  assume h: "FracMinHashComparison_init m1 m2 True cs tbp ci conf = Inr c"
  obtain a b r where f:
    "mh1_cmp c = Some a" "mh2_cmp c = Some b" "cmp_scaled c = Some r"
    "threshold_bp c = tbp" "estimate_ani_ci c = ci" "ani_confidence c = conf"
    "0 \<le> r" "True \<longrightarrow> \<not> track_abundance a"
    by (rule Frac_init_fields [OF h])
  have na: "\<not> track_abundance a" using f(8) by simp
  have ang: "mh_angular_similarity E a b =
      Inl (TypeError ''angular_similarity: abundance is not tracked'')"
    using na by (simp add: mh_angular_similarity_def)
  show "angular_similarity E c = Inl (TypeError ''angular_similarity: abundance is not tracked'') \<and>
      cosine_similarity E c = Inl (TypeError ''angular_similarity: abundance is not tracked'') \<and>
      (\<exists>v. intersect_mh c = Inr v) \<and> (\<exists>v. jaccard E c = Inr v) \<and>
      (\<exists>v. jaccard_ani E c = Inr v) \<and>
      (\<exists>v. intersect_bp c = Inr v) \<and> (\<exists>v. pass_threshold c = Inr v) \<and>
      (\<exists>v. mh1_containment E c = Inr v) \<and> (\<exists>v. mh1_containment_ani E c = Inr v) \<and>
      (\<exists>v. mh2_containment E c = Inr v) \<and> (\<exists>v. mh2_containment_ani E c = Inr v) \<and>
      (\<exists>v. max_containment E c = Inr v) \<and> (\<exists>v. max_containment_ani E c = Inr v) \<and>
      (\<exists>v. avg_containment E c = Inr v) \<and> (\<exists>v. avg_containment_ani E c = Inr v)"
    unfolding base_props [OF f(1,2)] frac_props [OF f(1,2)] avg_props [OF f(1,2)]
      bp_props [OF f(1,2,3)] ang
    by simp
next
  assume h: "NumMinHashComparison_init m1' m2' True cn = Inr d"
  obtain a b where f:
    "mh1_cmp d = Some a" "mh2_cmp d = Some b" "True \<longrightarrow> \<not> track_abundance a"
    by (rule Num_init_fields [OF h])
  have na: "\<not> track_abundance a" using f(3) by simp
  have ang: "mh_angular_similarity E a b =
      Inl (TypeError ''angular_similarity: abundance is not tracked'')"
    using na by (simp add: mh_angular_similarity_def)
  show "angular_similarity E d = Inl (TypeError ''angular_similarity: abundance is not tracked'') \<and>
      cosine_similarity E d = Inl (TypeError ''angular_similarity: abundance is not tracked'') \<and>
      (\<exists>v. intersect_mh d = Inr v) \<and> (\<exists>v. jaccard E d = Inr v) \<and>
      (\<exists>v. jaccard_ani E d = Inr v)"
    unfolding base_props [OF f(1,2)] ang by simp
qed


lemma ex_num_init_flat:
  "NumMinHashComparison_init ex_num500 ex_num300 True None =
     Inr \<lparr>mh1 = ex_num500, mh2 = ex_num300, ignore_abundance = True,
          mh1_cmp = Some (ex_num500\<lparr>num := 300\<rparr>),
          mh2_cmp = Some \<lparr>num = 300, scaled = 0, mh_ksize = 21, mh_moltype = ''DNA'',
                           track_abundance = False, hashes = [(7, 1), (8, 1)]\<rparr>,
          ksize = Some 21, moltype = Some ''DNA'', cmp_num = Some 300\<rparr>"
  unfolding Num_init_eq
  by (simp add: ex_num500_def ex_num300_def py_any_def py_and_def downsample_def
        is_compatible_def flatten_def)

theorem angular_similarity_needs_abundance_witness:
  "(\<exists>c. FracMinHashComparison_init ex_scaled10 ex_scaled20 True None 0 False (19 / 20) = Inr c \<and>
        angular_similarity ex_engine c =
          Inl (TypeError ''angular_similarity: abundance is not tracked'') \<and>
        (\<exists>v. jaccard ex_engine c = Inr v) \<and> (\<exists>v. avg_containment ex_engine c = Inr v)) \<and>
   (\<exists>d. NumMinHashComparison_init ex_num500 ex_num300 True None = Inr d \<and>
        cosine_similarity ex_engine d =
          Inl (TypeError ''angular_similarity: abundance is not tracked'') \<and>
        (\<exists>v. jaccard ex_engine d = Inr v))"
proof -
  note t = angular_similarity_needs_abundance
    [of ex_scaled10 ex_scaled20 None 0 False "19 / 20"
        "\<lparr>mh1 = ex_scaled10, mh2 = ex_scaled20, ignore_abundance = True,
          mh1_cmp = Some \<lparr>num = 0, scaled = 20, mh_ksize = 21, mh_moltype = ''DNA'',
                           track_abundance = False, hashes = [(3, 1), (7, 1), (9, 1)]\<rparr>,
          mh2_cmp = Some ex_scaled20,
          ksize = Some 21, moltype = Some ''DNA'', cmp_scaled = Some 20,
          threshold_bp = 0, estimate_ani_ci = False, ani_confidence = 19 / 20\<rparr>"
        ex_engine ex_num500 ex_num300 None
        "\<lparr>mh1 = ex_num500, mh2 = ex_num300, ignore_abundance = True,
          mh1_cmp = Some (ex_num500\<lparr>num := 300\<rparr>),
          mh2_cmp = Some \<lparr>num = 300, scaled = 0, mh_ksize = 21, mh_moltype = ''DNA'',
                           track_abundance = False, hashes = [(7, 1), (8, 1)]\<rparr>,
          ksize = Some 21, moltype = Some ''DNA'', cmp_num = Some 300\<rparr>"]
  from t ex_frac_init_flat ex_num_init_flat show ?thesis by simp
qed

section \<open>Base pairs and the threshold\<close>

lemma intersection_keys:
  "fst ` set (hashes (intersection (flatten a) (flatten b))) =
     fst ` set (hashes a) \<inter> fst ` set (hashes b)"
  by (force simp add: intersection_def flatten_def)

text \<open>
  Claim C7. For every fixed-rate comparison, with \<open>a\<close> and \<open>b\<close> the two sketches downsampled
  to the resolved rate \<open>r\<close> (the supplied \<open>cmp_scaled\<close>, or the larger of the two rates), the
  intersection sketch is the intersection of the flattened \<open>a\<close> and \<open>b\<close>, whose hashes are
  those common to \<open>a\<close> and \<open>b\<close>; \<open>intersect_bp\<close> is the number of its hashes times \<open>r\<close>, and
  \<open>pass_threshold\<close> holds if and only if \<open>intersect_bp \<ge> threshold_bp\<close>. The value lies
  between 0 and the size of \<open>a\<close> times \<open>r\<close>, so a threshold of 0 always passes and a
  threshold above that bound never does.
\<close>

theorem pass_threshold_iff:
  assumes "FracMinHashComparison_init m1 m2 ia cs tbp ci conf = Inr c"
  shows "\<exists>a b r.
           r = (case cs of None \<Rightarrow> int (max (scaled m1) (scaled m2)) | Some v \<Rightarrow> v) \<and>
           downsample (if ia then flatten m1 else m1) None (Some r) = Inr a \<and>
           downsample (if ia then flatten m2 else m2) None (Some r) = Inr b \<and>
           mh1_cmp c = Some a \<and> mh2_cmp c = Some b \<and> cmp_scaled c = Some r \<and>
           threshold_bp c = tbp \<and>
           intersect_mh c = Inr (intersection (flatten a) (flatten b)) \<and>
           fst ` set (hashes (intersection (flatten a) (flatten b))) =
             fst ` set (hashes a) \<inter> fst ` set (hashes b) \<and>
           intersect_bp c =
             Inr (int (length (hashes (intersection (flatten a) (flatten b)))) * r) \<and>
           pass_threshold c =
             Inr (int (length (hashes (intersection (flatten a) (flatten b)))) * r \<ge> tbp) \<and>
           0 \<le> int (length (hashes (intersection (flatten a) (flatten b)))) * r \<and>
           int (length (hashes (intersection (flatten a) (flatten b)))) * r
             \<le> int (length (hashes a)) * r \<and>
           (tbp = 0 \<longrightarrow> pass_threshold c = Inr True) \<and>
           (int (length (hashes a)) * r < tbp \<longrightarrow> pass_threshold c = Inr False)"
proof -
  obtain a b r where ab:
    "r = (case cs of None \<Rightarrow> int (max (scaled m1) (scaled m2)) | Some v \<Rightarrow> v)"
    "py_any [py_and (num m1) (num m2), py_and (scaled m1) (scaled m2)]"
    "downsample (if ia then flatten m1 else m1) None (Some r) = Inr a"
    "downsample (if ia then flatten m2 else m2) None (Some r) = Inr b"
    "is_compatible a b"
    "c = \<lparr>mh1 = m1, mh2 = m2, ignore_abundance = ia, mh1_cmp = Some a, mh2_cmp = Some b,
          ksize = Some (mh_ksize m1), moltype = Some (mh_moltype m1), cmp_scaled = Some r,
          threshold_bp = tbp, estimate_ani_ci = ci, ani_confidence = conf\<rparr>"
    by (rule Frac_init_Inr [OF assms])
  have f: "mh1_cmp c = Some a" "mh2_cmp c = Some b" "cmp_scaled c = Some r"
    "threshold_bp c = tbp"
    unfolding ab(6) by simp_all
  have r0: "0 \<le> r" using downsample_scaled_Inr [OF ab(3)] by simp
  define bp where "bp = int (length (hashes (intersection (flatten a) (flatten b)))) * r"
  have i: "intersect_mh c = Inr (intersection (flatten a) (flatten b))"
    by (rule base_props(1) [OF f(1,2)])
  have k: "fst ` set (hashes (intersection (flatten a) (flatten b))) =
             fst ` set (hashes a) \<inter> fst ` set (hashes b)"
    by (rule intersection_keys)
  have b: "intersect_bp c = Inr bp" unfolding bp_def by (rule bp_props(1) [OF f(1,2,3)])
  have p: "pass_threshold c = Inr (bp \<ge> tbp)"
    unfolding bp_def bp_props(2) [OF f(1,2,3)] f(4) by simp
  have lo: "0 \<le> bp" unfolding bp_def using r0 by simp
  have "int (length (hashes (intersection (flatten a) (flatten b)))) \<le> int (length (hashes a))"
    using intersection_size [of a b] by simp
  then have hi: "bp \<le> int (length (hashes a)) * r"
    unfolding bp_def using r0 by (rule mult_right_mono)
  have z: "tbp = 0 \<longrightarrow> pass_threshold c = Inr True" unfolding p using lo by simp
  have t: "int (length (hashes a)) * r < tbp \<longrightarrow> pass_threshold c = Inr False"
    unfolding p using hi by simp
  from ab(1,3,4) f i k b p lo hi z t show ?thesis unfolding bp_def by blast
qed

lemma ex_frac_init_tbp:
  "FracMinHashComparison_init ex_scaled10 ex_scaled20 False None tbp False (19 / 20) =
     Inr \<lparr>mh1 = ex_scaled10, mh2 = ex_scaled20, ignore_abundance = False,
          mh1_cmp = Some (ex_scaled10\<lparr>scaled := 20\<rparr>), mh2_cmp = Some ex_scaled20,
          ksize = Some 21, moltype = Some ''DNA'', cmp_scaled = Some 20,
          threshold_bp = tbp, estimate_ani_ci = False, ani_confidence = 19 / 20\<rparr>"
  unfolding Frac_init_eq
  by (simp add: ex_scaled10_def ex_scaled20_def py_any_def py_and_def downsample_def is_compatible_def)

lemma ex_intersection:
  "intersection (flatten (ex_scaled10\<lparr>scaled := 20\<rparr>)) (flatten ex_scaled20) =
     \<lparr>num = 0, scaled = 20, mh_ksize = 21, mh_moltype = ''DNA'',
      track_abundance = False, hashes = [(7, 1), (9, 1)]\<rparr>"
  by (simp add: intersection_def flatten_def ex_scaled10_def ex_scaled20_def)

theorem pass_threshold_iff_witness:
  "(\<exists>c. FracMinHashComparison_init ex_scaled10 ex_scaled20 False None 0 False (19 / 20) = Inr c \<and>
        intersect_mh c = Inr \<lparr>num = 0, scaled = 20, mh_ksize = 21, mh_moltype = ''DNA'',
                              track_abundance = False, hashes = [(7, 1), (9, 1)]\<rparr> \<and>
        intersect_bp c = Inr 40 \<and> pass_threshold c = Inr True) \<and>
   (\<exists>c. FracMinHashComparison_init ex_scaled10 ex_scaled20 False None 40 False (19 / 20) = Inr c \<and>
        intersect_bp c = Inr 40 \<and> pass_threshold c = Inr True) \<and>
   (\<exists>c. FracMinHashComparison_init ex_scaled10 ex_scaled20 False None 41 False (19 / 20) = Inr c \<and>
        intersect_bp c = Inr 40 \<and> pass_threshold c = Inr False) \<and>
   (\<exists>c. FracMinHashComparison_init ex_scaled10 ex_scaled20 False None 1000 False (19 / 20) = Inr c \<and>
        intersect_bp c = Inr 40 \<and> pass_threshold c = Inr False)"
proof -
  let ?c = "\<lambda>tbp. \<lparr>mh1 = ex_scaled10, mh2 = ex_scaled20, ignore_abundance = False,
          mh1_cmp = Some (ex_scaled10\<lparr>scaled := 20\<rparr>), mh2_cmp = Some ex_scaled20,
          ksize = Some 21, moltype = Some ''DNA'', cmp_scaled = Some (20::int),
          threshold_bp = tbp, estimate_ani_ci = False, ani_confidence = 19 / 20\<rparr>"
  let ?im = "\<lparr>num = 0, scaled = 20, mh_ksize = 21, mh_moltype = ''DNA'',
                              track_abundance = False, hashes = [(7, 1), (9, 1)]\<rparr>"
  have v: "intersect_mh (?c tbp) = Inr ?im \<and> intersect_bp (?c tbp) = Inr 40 \<and>
           pass_threshold (?c tbp) = Inr (tbp \<le> 40)" for tbp
  proof -
    from pass_threshold_iff [OF ex_frac_init_tbp [of tbp]] obtain a b r where
      f: "mh1_cmp (?c tbp) = Some a" "mh2_cmp (?c tbp) = Some b" "cmp_scaled (?c tbp) = Some r"
         "intersect_mh (?c tbp) = Inr (intersection (flatten a) (flatten b))"
         "intersect_bp (?c tbp) =
             Inr (int (length (hashes (intersection (flatten a) (flatten b)))) * r)"
         "pass_threshold (?c tbp) =
             Inr (int (length (hashes (intersection (flatten a) (flatten b)))) * r \<ge> tbp)"
      by blast
    have a: "a = ex_scaled10\<lparr>scaled := 20\<rparr>" and b: "b = ex_scaled20" and r: "r = 20"
      using f(1,2,3) by simp_all
    show ?thesis using f(4,5,6) unfolding a b r ex_intersection by simp
  qed
  from v [of 0] v [of 40] v [of 41] v [of 1000]
    ex_frac_init_tbp [of 0] ex_frac_init_tbp [of 40] ex_frac_init_tbp [of 41]
    ex_frac_init_tbp [of 1000]
  show ?thesis by simp
qed

section \<open>Average containment\<close>

text \<open>
  Claim C9. For every fixed-rate comparison, \<open>avg_containment\<close> is the arithmetic mean of
  the two directional containments, and \<open>avg_containment_ani\<close> is the arithmetic mean of the
  point estimates \<open>.ani\<close> of the two directional containment ANI results; the bounds of their
  confidence intervals do not enter. Floating-point numbers are read as reals.
\<close>

theorem avg_containment_is_mean:
  assumes "FracMinHashComparison_init m1 m2 ia cs tbp ci conf = Inr c"
  shows "\<exists>x y p q. mh1_containment E c = Inr x \<and> mh2_containment E c = Inr y \<and>
           avg_containment E c = Inr ((x + y) / 2) \<and>
           mh1_containment_ani E c = Inr p \<and> mh2_containment_ani E c = Inr q \<and>
           avg_containment_ani E c = Inr ((ani p + ani q) / 2)"
proof -
  obtain a b r where f:
    "mh1_cmp c = Some a" "mh2_cmp c = Some b" "cmp_scaled c = Some r"
    "threshold_bp c = tbp" "estimate_ani_ci c = ci" "ani_confidence c = conf"
    "0 \<le> r" "ia \<longrightarrow> \<not> track_abundance a"
    by (rule Frac_init_fields [OF assms])
  have m: "\<And>u v :: real. np_mean [u, v] = (u + v) / 2" by (simp add: np_mean_def)
  show ?thesis
    unfolding frac_props [OF f(1,2)] avg_props [OF f(1,2)] m by simp
qed

theorem avg_containment_is_mean_witness:
  "\<exists>c. FracMinHashComparison_init ex_scaled10 ex_scaled20 False None 0 True (19 / 20) = Inr c \<and>
       mh1_containment ex_engine c = Inr (2 / 3) \<and>
       mh2_containment ex_engine c = Inr (2 / 3) \<and>
       avg_containment ex_engine c = Inr (2 / 3) \<and>
       avg_containment_ani ex_engine c = Inr (2 / 3)"
proof -
  let ?c = "\<lparr>mh1 = ex_scaled10, mh2 = ex_scaled20, ignore_abundance = False,
          mh1_cmp = Some (ex_scaled10\<lparr>scaled := 20\<rparr>), mh2_cmp = Some ex_scaled20,
          ksize = Some 21, moltype = Some ''DNA'', cmp_scaled = Some (20::int),
          threshold_bp = 0, estimate_ani_ci = True, ani_confidence = 19 / 20\<rparr>"
  have i: "FracMinHashComparison_init ex_scaled10 ex_scaled20 False None 0 True (19 / 20) = Inr ?c"
    unfolding Frac_init_eq
    by (simp add: ex_scaled10_def ex_scaled20_def py_any_def py_and_def downsample_def is_compatible_def)
  have sel: "mh1_cmp ?c = Some (ex_scaled10\<lparr>scaled := 20\<rparr>)" "mh2_cmp ?c = Some ex_scaled20"
    by simp_all
  have c1: "ex_contained_by (ex_scaled10\<lparr>scaled := 20\<rparr>) ex_scaled20 = 2 / 3"
    by (simp add: ex_contained_by_def ex_common_def ex_scaled10_def ex_scaled20_def)
  have c2: "ex_contained_by ex_scaled20 (ex_scaled10\<lparr>scaled := 20\<rparr>) = 2 / 3"
    by (simp add: ex_contained_by_def ex_common_def ex_scaled10_def ex_scaled20_def)
  have v: "mh1_containment ex_engine ?c = Inr (2 / 3)" "mh2_containment ex_engine ?c = Inr (2 / 3)"
    "mh1_containment_ani ex_engine ?c = Inr (ex_estimate (2 / 3) True)"
    "mh2_containment_ani ex_engine ?c = Inr (ex_estimate (2 / 3) True)"
    unfolding frac_props [OF sel] by (simp_all add: ex_engine_def c1 c2)
  from avg_containment_is_mean [OF i, of ex_engine] v
  have "avg_containment ex_engine ?c = Inr (2 / 3) \<and> avg_containment_ani ex_engine ?c = Inr (2 / 3)"
    by (auto simp add: ex_estimate_def)
  with i v show ?thesis by blast
qed

section \<open>Weighted intersection\<close>

lemma tagged_eq:
  "tagged_intersection im src =
     im\<lparr>track_abundance := True,
        hashes := map (\<lambda>k. (k, case map_of src k of None \<Rightarrow> 1 | Some v \<Rightarrow> v))
                    (map fst (hashes im))\<rparr>"
  by (simp add: tagged_intersection_def set_abundances_def copy_and_clear_def dict_get_def)

lemma weighted_eq:
  fixes c :: "'a FracMinHashComparison_scheme"
  assumes "mh1_cmp c = Some a" "mh2_cmp c = Some b"
  shows "weighted_intersection c from_mh from_abundD =
     (if (case from_mh of None \<Rightarrow> from_abundD
          | Some m \<Rightarrow> if track_abundance m then hashes m else from_abundD) \<noteq> []
      then Inr (tagged_intersection (intersection (flatten a) (flatten b))
                  (case from_mh of None \<Rightarrow> from_abundD
                   | Some m \<Rightarrow> if track_abundance m then hashes m else from_abundD))
      else Inr (intersection (flatten a) (flatten b)))"
  unfolding weighted_intersection_def base_props(1) [OF assms] tagged_intersection_def Let_def
  by simp

lemma weighted_spec_eq:
  fixes c :: "'a FracMinHashComparison_scheme"
  assumes "mh1_cmp c = Some a" "mh2_cmp c = Some b"
  shows "weighted_intersection_spec c from_mh from_abundD =
     (case from_mh of
        Some m \<Rightarrow>
          if track_abundance m
          then Inr (tagged_intersection (intersection (flatten a) (flatten b)) (hashes m))
          else if from_abundD \<noteq> []
          then Inr (tagged_intersection (intersection (flatten a) (flatten b)) from_abundD)
          else Inr (intersection (flatten a) (flatten b))
      | None \<Rightarrow>
          if from_abundD \<noteq> []
          then Inr (tagged_intersection (intersection (flatten a) (flatten b)) from_abundD)
          else Inr (intersection (flatten a) (flatten b)))"
  unfolding weighted_intersection_spec_def base_props(1) [OF assms] by simp

lemma map_of_tabulate:
  "k \<in> set ks \<Longrightarrow> map_of (map (\<lambda>k. (k, f k)) ks) k = Some (f k)"
  by (induction ks) auto

lemma intersection_flat: "\<not> track_abundance (intersection (flatten a) (flatten b))"
  by (simp add: intersection_def flatten_def)

text \<open>
  Claim C2, as stated: if \<open>from_mh\<close> is given and tracks abundance, its mapping is used, and
  every intersection hash absent from it gets abundance 1; only with neither source is the
  plain intersection returned. Here \<open>from_mh\<close> is given, tracks abundance and holds no hash:
  the documented policy yields the intersection tagged with abundance 1 in a sketch that
  tracks abundance, while the method returns the plain intersection, which tracks none.
\<close>

theorem weighted_intersection_empty_source:
  "FracMinHashComparison_init ex_scaled10 ex_scaled20 False None 0 False (19 / 20) =
     Inr \<lparr>mh1 = ex_scaled10, mh2 = ex_scaled20, ignore_abundance = False,
          mh1_cmp = Some (ex_scaled10\<lparr>scaled := 20\<rparr>), mh2_cmp = Some ex_scaled20,
          ksize = Some 21, moltype = Some ''DNA'', cmp_scaled = Some 20,
          threshold_bp = 0, estimate_ani_ci = False, ani_confidence = 19 / 20\<rparr> \<and>
   track_abundance ex_empty_source \<and>
   weighted_intersection
     \<lparr>mh1 = ex_scaled10, mh2 = ex_scaled20, ignore_abundance = False,
      mh1_cmp = Some (ex_scaled10\<lparr>scaled := 20\<rparr>), mh2_cmp = Some ex_scaled20,
      ksize = Some 21, moltype = Some ''DNA'', cmp_scaled = Some 20,
      threshold_bp = 0, estimate_ani_ci = False, ani_confidence = 19 / 20\<rparr>
     (Some ex_empty_source) [] =
     Inr \<lparr>num = 0, scaled = 20, mh_ksize = 21, mh_moltype = ''DNA'',
          track_abundance = False, hashes = [(7, 1), (9, 1)]\<rparr> \<and>
   weighted_intersection_spec
     \<lparr>mh1 = ex_scaled10, mh2 = ex_scaled20, ignore_abundance = False,
      mh1_cmp = Some (ex_scaled10\<lparr>scaled := 20\<rparr>), mh2_cmp = Some ex_scaled20,
      ksize = Some 21, moltype = Some ''DNA'', cmp_scaled = Some 20,
      threshold_bp = 0, estimate_ani_ci = False, ani_confidence = 19 / 20\<rparr>
     (Some ex_empty_source) [] =
     Inr \<lparr>num = 0, scaled = 20, mh_ksize = 21, mh_moltype = ''DNA'',
          track_abundance = True, hashes = [(7, 1), (9, 1)]\<rparr>"
proof -
  let ?c = "\<lparr>mh1 = ex_scaled10, mh2 = ex_scaled20, ignore_abundance = False,
      mh1_cmp = Some (ex_scaled10\<lparr>scaled := 20\<rparr>), mh2_cmp = Some ex_scaled20,
      ksize = Some 21, moltype = Some ''DNA'', cmp_scaled = Some (20::int),
      threshold_bp = 0, estimate_ani_ci = False, ani_confidence = 19 / 20\<rparr>"
  have sel: "mh1_cmp ?c = Some (ex_scaled10\<lparr>scaled := 20\<rparr>)" "mh2_cmp ?c = Some ex_scaled20"
    by simp_all
  have src: "track_abundance ex_empty_source" "hashes ex_empty_source = []"
    by (simp_all add: ex_empty_source_def)
  have w: "weighted_intersection ?c (Some ex_empty_source) [] =
     Inr \<lparr>num = 0, scaled = 20, mh_ksize = 21, mh_moltype = ''DNA'',
          track_abundance = False, hashes = [(7, 1), (9, 1)]\<rparr>"
    unfolding weighted_eq [OF sel] ex_intersection by (simp add: src)
  have s: "weighted_intersection_spec ?c (Some ex_empty_source) [] =
     Inr \<lparr>num = 0, scaled = 20, mh_ksize = 21, mh_moltype = ''DNA'',
          track_abundance = True, hashes = [(7, 1), (9, 1)]\<rparr>"
    unfolding weighted_spec_eq [OF sel] ex_intersection by (simp add: src tagged_eq)
  from ex_frac_init src(1) w s show ?thesis by simp
qed

text \<open>
  Claim C2, amended. For every fixed-rate comparison, with \<open>a\<close> and \<open>b\<close> its two normalized
  sketches and \<open>im\<close> the intersection of the flattened \<open>a\<close> and \<open>b\<close>, \<open>weighted_intersection\<close>
  chooses its source so: the mapping of \<open>from_mh\<close> if \<open>from_mh\<close> is given and tracks
  abundance, taking precedence over \<open>from_abundD\<close>; else \<open>from_abundD\<close>. If the chosen
  mapping is not empty, the result is \<open>im\<close> with abundance tracking on, holding exactly the
  hashes of \<open>im\<close>, each with its abundance in the chosen mapping, or 1 when it is absent
  from it. If the chosen mapping is empty, as it is when neither source is given, the
  plain intersection \<open>im\<close> is returned, which tracks no abundance.
\<close>

theorem weighted_intersection_policy:
  assumes "FracMinHashComparison_init m1 m2 ia cs tbp ci conf = Inr c"
  shows "\<exists>a b im src.
           mh1_cmp c = Some a \<and> mh2_cmp c = Some b \<and>
           im = intersection (flatten a) (flatten b) \<and>
           intersect_mh c = Inr im \<and>
           fst ` set (hashes im) = fst ` set (hashes a) \<inter> fst ` set (hashes b) \<and>
           \<not> track_abundance im \<and>
           src = (case from_mh of
                    None \<Rightarrow> from_abundD
                  | Some m \<Rightarrow> if track_abundance m then hashes m else from_abundD) \<and>
           weighted_intersection c from_mh from_abundD =
             (if src \<noteq> []
              then Inr (im\<lparr>track_abundance := True,
                           hashes := map (\<lambda>k. (k, case map_of src k of None \<Rightarrow> 1 | Some v \<Rightarrow> v))
                                       (map fst (hashes im))\<rparr>)
              else Inr im) \<and>
           (\<forall>h \<in> fst ` set (hashes im).
              map_of (map (\<lambda>k. (k, case map_of src k of None \<Rightarrow> 1 | Some v \<Rightarrow> v))
                        (map fst (hashes im))) h =
                Some (case map_of src h of None \<Rightarrow> 1 | Some v \<Rightarrow> v)) \<and>
           weighted_intersection c None [] = Inr im"
proof -
  obtain a b r where f:
    "mh1_cmp c = Some a" "mh2_cmp c = Some b" "cmp_scaled c = Some r"
    "threshold_bp c = tbp" "estimate_ani_ci c = ci" "ani_confidence c = conf"
    "0 \<le> r" "ia \<longrightarrow> \<not> track_abundance a"
    by (rule Frac_init_fields [OF assms])
  define im where "im = intersection (flatten a) (flatten b)"
  define src where "src = (case from_mh of None \<Rightarrow> from_abundD
                       | Some m \<Rightarrow> if track_abundance m then hashes m else from_abundD)"
  have i: "intersect_mh c = Inr im" unfolding im_def by (rule base_props(1) [OF f(1,2)])
  have k: "fst ` set (hashes im) = fst ` set (hashes a) \<inter> fst ` set (hashes b)"
    unfolding im_def by (rule intersection_keys)
  have nt: "\<not> track_abundance im" unfolding im_def by (rule intersection_flat)
  have n: "weighted_intersection c None [] = Inr im"
    unfolding weighted_eq [OF f(1,2)] im_def by simp
  have w: "weighted_intersection c from_mh from_abundD =
             (if src \<noteq> []
              then Inr (im\<lparr>track_abundance := True,
                           hashes := map (\<lambda>k. (k, case map_of src k of None \<Rightarrow> 1 | Some v \<Rightarrow> v))
                                       (map fst (hashes im))\<rparr>)
              else Inr im)"
    unfolding weighted_eq [OF f(1,2)] tagged_eq im_def src_def by (rule refl)
  have ab: "\<forall>h \<in> fst ` set (hashes im).
              map_of (map (\<lambda>k. (k, case map_of src k of None \<Rightarrow> 1 | Some v \<Rightarrow> v))
                        (map fst (hashes im))) h =
                Some (case map_of src h of None \<Rightarrow> 1 | Some v \<Rightarrow> v)"
  proof
    fix h assume "h \<in> fst ` set (hashes im)"
    then have "h \<in> set (map fst (hashes im))" by simp
    then show "map_of (map (\<lambda>k. (k, case map_of src k of None \<Rightarrow> 1 | Some v \<Rightarrow> v))
                        (map fst (hashes im))) h =
                Some (case map_of src h of None \<Rightarrow> 1 | Some v \<Rightarrow> v)"
      by (rule map_of_tabulate)
  qed
  show ?thesis
  proof (intro exI conjI)
    show "mh1_cmp c = Some a" by (rule f(1))
    show "mh2_cmp c = Some b" by (rule f(2))
    show "im = intersection (flatten a) (flatten b)" by (rule im_def)
    show "intersect_mh c = Inr im" by (rule i)
    show "fst ` set (hashes im) = fst ` set (hashes a) \<inter> fst ` set (hashes b)" by (rule k)
    show "\<not> track_abundance im" by (rule nt)
    show "src = (case from_mh of None \<Rightarrow> from_abundD
                       | Some m \<Rightarrow> if track_abundance m then hashes m else from_abundD)"
      by (rule src_def)
    show "weighted_intersection c from_mh from_abundD =
             (if src \<noteq> []
              then Inr (im\<lparr>track_abundance := True,
                           hashes := map (\<lambda>k. (k, case map_of src k of None \<Rightarrow> 1 | Some v \<Rightarrow> v))
                                       (map fst (hashes im))\<rparr>)
              else Inr im)" by (rule w)
    show "\<forall>h \<in> fst ` set (hashes im).
              map_of (map (\<lambda>k. (k, case map_of src k of None \<Rightarrow> 1 | Some v \<Rightarrow> v))
                        (map fst (hashes im))) h =
                Some (case map_of src h of None \<Rightarrow> 1 | Some v \<Rightarrow> v)" by (rule ab)
    show "weighted_intersection c None [] = Inr im" by (rule n)
  qed
qed

theorem weighted_intersection_policy_witness:
  "\<exists>c. FracMinHashComparison_init ex_scaled10 ex_scaled20 False None 0 False (19 / 20) = Inr c \<and>
       weighted_intersection c (Some ex_scaled10) [(7, 4)] =
         Inr \<lparr>num = 0, scaled = 20, mh_ksize = 21, mh_moltype = ''DNA'',
              track_abundance = True, hashes = [(7, 5), (9, 1)]\<rparr> \<and>
       weighted_intersection c (Some ex_scaled20) [(7, 4)] =
         Inr \<lparr>num = 0, scaled = 20, mh_ksize = 21, mh_moltype = ''DNA'',
              track_abundance = True, hashes = [(7, 4), (9, 1)]\<rparr> \<and>
       weighted_intersection c None [(7, 4)] =
         Inr \<lparr>num = 0, scaled = 20, mh_ksize = 21, mh_moltype = ''DNA'',
              track_abundance = True, hashes = [(7, 4), (9, 1)]\<rparr> \<and>
       weighted_intersection c None [] =
         Inr \<lparr>num = 0, scaled = 20, mh_ksize = 21, mh_moltype = ''DNA'',
              track_abundance = False, hashes = [(7, 1), (9, 1)]\<rparr>"
proof -
  let ?c = "\<lparr>mh1 = ex_scaled10, mh2 = ex_scaled20, ignore_abundance = False,
      mh1_cmp = Some (ex_scaled10\<lparr>scaled := 20\<rparr>), mh2_cmp = Some ex_scaled20,
      ksize = Some 21, moltype = Some ''DNA'', cmp_scaled = Some (20::int),
      threshold_bp = 0, estimate_ani_ci = False, ani_confidence = 19 / 20\<rparr>"
  let ?im = "\<lparr>num = 0, scaled = 20, mh_ksize = 21, mh_moltype = ''DNA'',
          track_abundance = False, hashes = [(7, 1), (9, 1)]\<rparr>"
  have v: "weighted_intersection ?c fm fd =
      (if (case fm of None \<Rightarrow> fd | Some m \<Rightarrow> if track_abundance m then hashes m else fd) \<noteq> []
       then Inr (?im\<lparr>track_abundance := True,
                     hashes := map (\<lambda>k. (k, case map_of (case fm of None \<Rightarrow> fd
                                       | Some m \<Rightarrow> if track_abundance m then hashes m else fd) k of
                                       None \<Rightarrow> 1 | Some v \<Rightarrow> v)) [7, 9]\<rparr>)
       else Inr ?im)" for fm fd
    using weighted_intersection_policy [OF ex_frac_init, where from_mh = fm and from_abundD = fd]
  proof (elim exE conjE)
    fix a b im src
    assume f: "mh1_cmp ?c = Some a" "mh2_cmp ?c = Some b"
      "im = intersection (flatten a) (flatten b)"
      "src = (case fm of None \<Rightarrow> fd | Some m \<Rightarrow> if track_abundance m then hashes m else fd)"
      "weighted_intersection ?c fm fd =
             (if src \<noteq> []
              then Inr (im\<lparr>track_abundance := True,
                           hashes := map (\<lambda>k. (k, case map_of src k of None \<Rightarrow> 1 | Some v \<Rightarrow> v))
                                       (map fst (hashes im))\<rparr>)
              else Inr im)"
    have a: "a = ex_scaled10\<lparr>scaled := 20\<rparr>" and b: "b = ex_scaled20"
      using f(1,2) by simp_all
    have im: "im = ?im" unfolding f(3) a b by (rule ex_intersection)
    show ?thesis unfolding f(5) im f(4) by simp
  qed
  have s10: "track_abundance ex_scaled10" "hashes ex_scaled10 = [(3, 2), (7, 5), (9, 1)]"
    by (simp_all add: ex_scaled10_def)
  have s20: "\<not> track_abundance ex_scaled20" by (simp add: ex_scaled20_def)
  have 1: "weighted_intersection ?c (Some ex_scaled10) [(7, 4)] =
         Inr \<lparr>num = 0, scaled = 20, mh_ksize = 21, mh_moltype = ''DNA'',
              track_abundance = True, hashes = [(7, 5), (9, 1)]\<rparr>"
    unfolding v by (simp add: s10)
  have 2: "weighted_intersection ?c (Some ex_scaled20) [(7, 4)] =
         Inr \<lparr>num = 0, scaled = 20, mh_ksize = 21, mh_moltype = ''DNA'',
              track_abundance = True, hashes = [(7, 4), (9, 1)]\<rparr>"
    unfolding v by (simp add: s20)
  have 3: "weighted_intersection ?c None [(7, 4)] =
         Inr \<lparr>num = 0, scaled = 20, mh_ksize = 21, mh_moltype = ''DNA'',
              track_abundance = True, hashes = [(7, 4), (9, 1)]\<rparr>"
    unfolding v by simp
  have 4: "weighted_intersection ?c None [] = Inr ?im"
    unfolding v by simp
  from ex_frac_init 1 2 3 4 show ?thesis by blast
qed

end
